theory Spec2Isabelle
  imports Complex_Main
begin

section \<open>Conventions of the embedding\<close>

text \<open>
  The sampling and surrogate code of UQpy (\<^verbatim>\<open>SampleMethods.py\<close>, \<^verbatim>\<open>Surrogates.py\<close>)
  is embedded with the following conventions.
  \<^item> A numpy array of floats is a list (or a list of rows) of \<^typ>\<open>real\<close>: arithmetic is
    exact, so rounding, overflow, \<^verbatim>\<open>nan\<close> and \<^verbatim>\<open>inf\<close> are outside the model unless
    a definition says otherwise.
  \<^item> Every exception and every \<^verbatim>\<open>sys.exit\<close> is a value \<open>Inl e\<close> of a sum type.
  \<^item> Every draw from the process-wide random source is an explicit argument
    (the variate that the call returned), in the order the code draws them.
  \<^item> Functions of numpy, scipy and of the distribution library that the code calls are
    parameters of the definitions that call them.
\<close>

datatype error =
    SysExit string
  | IndexError
  | ValueError
  | TypeError
  | ZeroDivisionError
  | LinAlgError
  | NotImplementedError

section \<open>Strata: rectilinear stratification of the unit hypercube\<close>

record strata =
  origins :: "real list list"
  widths :: "real list list"
  weights :: "real list"

text \<open>
  \<^verbatim>\<open>Strata.fullfact\<close>. The design matrix is filled column by column; column \<open>i\<close> is
  \<^verbatim>\<open>rng = lvl * range_repeat\<close> with \<^verbatim>\<open>lvl\<close> the levels \<open>0 .. levels[i]-1\<close>, each repeated
  \<^verbatim>\<open>level_repeat\<close> times. \<^verbatim>\<open>range_repeat\<close> is a numpy integer, whose floor division by
  zero yields 0, as \<open>div\<close> on \<^typ>\<open>nat\<close> does.
\<close>

fun fullfact_cols :: "nat list \<Rightarrow> nat \<Rightarrow> nat \<Rightarrow> nat list list" where
  "fullfact_cols [] level_repeat range_repeat = []"
| "fullfact_cols (l # ls) level_repeat range_repeat =
     (let range_repeat' = range_repeat div l;
          lvl = concat (map (\<lambda>j. replicate level_repeat j) [0..<l]);
          rng = concat (replicate range_repeat' lvl)
      in rng # fullfact_cols ls (level_repeat * l) range_repeat')"

definition fullfact :: "nat list \<Rightarrow> error + real list list" where
  "fullfact levels =
     (if levels = [] then Inl TypeError
      else let n_comb = prod_list levels;
               cols = fullfact_cols levels 1 n_comb
           in Inr (map (\<lambda>r. map (\<lambda>c. real (c ! r)) cols) [0..<n_comb]))"

text \<open>\<^verbatim>\<open>np.sum(np.prod(self.widths, 1))\<close>\<close>

definition space_fill :: "real list list \<Rightarrow> real" where
  "space_fill ws = sum_list (map prod_list ws)"

text \<open>
  What \<^verbatim>\<open>np.loadtxt\<close> returns for an existing text file that holds numbers only, given as
  the list of its lines, each line the list of its numbers. Blank lines are skipped, lines with different
  numbers of columns raise \<open>ValueError\<close>, and the table is squeezed (\<^verbatim>\<open>ndmin=0\<close>): a
  file of one number gives a zero-dimensional array, a file of one line or of one column a
  one-dimensional array, an empty file an empty one-dimensional array.
\<close>

datatype ndarray = Array0 real | Array1 "real list" | Array2 "real list list"

definition np_loadtxt :: "real list list \<Rightarrow> error + ndarray" where
  "np_loadtxt file_lines =
     (case filter (\<lambda>r. 0 < length r) file_lines of
        [] \<Rightarrow> Inr (Array1 [])
      | r # rs \<Rightarrow>
          if list_all (\<lambda>r'. length r' = length r) rs then
            (if rs = [] then (if length r = 1 then Inr (Array0 (hd r)) else Inr (Array1 r))
             else if length r = 1 then Inr (Array1 (map hd (r # rs)))
             else Inr (Array2 (r # rs)))
          else Inl ValueError)"

text \<open>
  \<^verbatim>\<open>Strata.__init__\<close>. The four keyword arguments are options (\<open>None\<close> is Python's
  \<^verbatim>\<open>None\<close>); \<open>input_file\<close> stands for the lines of the file. \<^verbatim>\<open>array_tmp.shape[1]\<close> exists
  only for a two-dimensional array and raises \<open>IndexError\<close> otherwise.
\<close>

definition Strata_init ::
  "nat list option \<Rightarrow> real list list option \<Rightarrow> real list list option \<Rightarrow>
   real list list option \<Rightarrow> error + strata" where
  "Strata_init n_strata input_file origins0 widths0 =
     (case n_strata of
        None \<Rightarrow>
          (case input_file of
             None \<Rightarrow>
               (case (widths0, origins0) of
                  (Some wid, Some org) \<Rightarrow>
                    Inr \<lparr>origins = org, widths = wid, weights = map prod_list wid\<rparr>
                | _ \<Rightarrow> Inl (SysExit (''Error: The strata are not fully defined. Must provide [n_strata], '' @
                                     ''input file, or [origins] and [widths].'')))
           | Some file_lines \<Rightarrow>
               (case np_loadtxt file_lines of
                  Inl e \<Rightarrow> Inl e
                | Inr (Array0 v) \<Rightarrow> Inl IndexError
                | Inr (Array1 vs) \<Rightarrow> Inl IndexError
                | Inr (Array2 array_tmp) \<Rightarrow>
                    (let ncol = (case array_tmp of [] \<Rightarrow> 0 | r # _ \<Rightarrow> length r);
                         org = map (take (ncol div 2)) array_tmp;
                         wid = map (drop (ncol div 2)) array_tmp;
                         sf = space_fill wid
                     in if 1 - sf > 1 / 10 ^ 5
                        then Inl (SysExit ''Error: The stratum design is not space-filling.'')
                        else if 1 - sf < - (1 / 10 ^ 5)
                        then Inl (SysExit ''Error: The stratum design is over-filling.'')
                        else Inr \<lparr>origins = org, widths = wid, weights = map prod_list wid\<rparr>)))
      | Some ns \<Rightarrow>
          (case fullfact ns of
             Inl e \<Rightarrow> Inl e
           | Inr ff \<Rightarrow>
               (let org = map (\<lambda>row. map2 (\<lambda>v n. v / real n) row ns) ff;
                    wid = map (\<lambda>row. map (\<lambda>n. 1 / real n) ns) org
                in Inr \<lparr>origins = org, widths = wid, weights = map prod_list wid\<rparr>)))"

text \<open>
  The split of \<^verbatim>\<open>RSS.run_rss\<close> (the lines under the comment \<^verbatim>\<open>Divide the stratum bin2break in the
  direction dir2break\<close>). \<open>u\<close> is \<^verbatim>\<open>samplesU01[bin2break, dir2break]\<close>, the coordinate of
  the sample that already lies in the stratum. An index out of range raises.
\<close>

definition split :: "strata \<Rightarrow> real \<Rightarrow> nat \<Rightarrow> nat \<Rightarrow> error + strata" where
  "split st u bin2break dir2break =
     (if length (widths st) \<le> bin2break \<or> length (origins st) \<le> bin2break
         \<or> length (weights st) \<le> bin2break
         \<or> length (widths st ! bin2break) \<le> dir2break
         \<or> length (origins st ! bin2break) \<le> dir2break
      then Inl IndexError
      else
        let w1 = (widths st)[bin2break :=
                   (widths st ! bin2break)[dir2break := widths st ! bin2break ! dir2break / 2]];
            w2 = w1 @ [w1 ! bin2break];
            o1 = origins st @ [origins st ! bin2break];
            o2 = (if u < last o1 ! dir2break + w2 ! bin2break ! dir2break
                  then o1[length o1 - 1 :=
                         (last o1)[dir2break := last o1 ! dir2break + w2 ! bin2break ! dir2break]]
                  else o1[bin2break :=
                         (o1 ! bin2break)[dir2break :=
                            o1 ! bin2break ! dir2break + w2 ! bin2break ! dir2break]]);
            g1 = (weights st)[bin2break := weights st ! bin2break / 2];
            g2 = g1 @ [g1 ! bin2break]
        in Inr \<lparr>origins = o2, widths = w2, weights = g2\<rparr>)"

text \<open>A finite sequence of splits, each given as \<open>(u, bin2break, dir2break)\<close>.\<close>

fun run_splits :: "strata \<Rightarrow> (real \<times> nat \<times> nat) list \<Rightarrow> error + strata" where
  "run_splits st [] = Inr st"
| "run_splits st ((u, b, d) # ops) =
     (case split st u b d of Inl e \<Rightarrow> Inl e | Inr st' \<Rightarrow> run_splits st' ops)"

definition strata_inv :: "strata \<Rightarrow> bool" where
  "strata_inv st \<longleftrightarrow> space_fill (widths st) = 1 \<and> weights st = map prod_list (widths st)"

section \<open>Target densities: resolving a log-density\<close>

text \<open>
  The value of \<^verbatim>\<open>np.log\<close> on a float: the logarithm of a positive number, \<^verbatim>\<open>-inf\<close>
  (with a warning) at zero, \<^verbatim>\<open>nan\<close> below zero.
\<close>

datatype logval = Finite real | NegInf | NaN

definition np_log :: "real \<Rightarrow> logval" where
  "np_log v = (if 0 < v then Finite (ln v) else if v = 0 then NegInf else NaN)"

text \<open>
  What a density callable returns: one float, or an array with one float per sample when
  it is called on an array of samples. \<^verbatim>\<open>np.log\<close> maps over an array.
\<close>

datatype npval = Scalar real | Array "real list"

datatype logarr = LogScalar logval | LogArray "logval list"

definition np_log_val :: "npval \<Rightarrow> logarr" where
  "np_log_val a = (case a of Scalar v \<Rightarrow> LogScalar (np_log v) | Array vs \<Rightarrow> LogArray (map np_log vs))"

text \<open>
  Python's built-in \<^verbatim>\<open>max(a, b)\<close> of two arguments returns \<open>a\<close> unless \<^verbatim>\<open>b > a\<close> is true.
  With an array \<open>a\<close> the comparison is an array of booleans, and taking the truth value of
  an array of two or more entries raises \<open>ValueError\<close>; an array of one entry has the truth
  value of its entry, an empty one is false (with a deprecation warning).
\<close>

fun py_max :: "npval \<Rightarrow> real \<Rightarrow> error + npval" where
  "py_max (Scalar v) b = Inr (Scalar (if b > v then b else v))"
| "py_max (Array []) b = Inr (Array [])"
| "py_max (Array [v]) b = Inr (if b > v then Scalar b else Array [v])"
| "py_max (Array (v # w # vs)) b = Inl ValueError"

text \<open>
  The helper \<^verbatim>\<open>compute_log_pdf\<close>, defined with the same body in \<^verbatim>\<open>MCMC.init_mcmc\<close> and in
  \<^verbatim>\<open>IS.init_is\<close>. \<^verbatim>\<open>10 ** (-320)\<close> is the positive float \<open>1e-320\<close>. MCMC calls the resolved
  target on one point, importance sampling calls it once on the whole sample array.
\<close>

definition compute_log_pdf :: "'x \<Rightarrow> 'p \<Rightarrow> ('x \<Rightarrow> 'p \<Rightarrow> npval) \<Rightarrow> error + logarr" where
  "compute_log_pdf x params pdf_func =
     (case py_max (pdf_func x params) (1 / 10 ^ 320) of
        Inl e \<Rightarrow> Inl e
      | Inr pdf_value \<Rightarrow> Inr (np_log_val pdf_value))"

text \<open>
  The constructor of the distribution class is declared as
  \<^verbatim>\<open>__init__(self, dist_name=None, copula=None, params=None, copula_params=None)\<close>. A call
  binds its keyword arguments to these names, and a keyword that is not among them raises
  \<open>TypeError\<close>. The argument is the list of the keywords of the call; what the constructor
  does after the binding is part of the distribution library.
\<close>

definition Distribution_new :: "string list \<Rightarrow> error + unit" where
  "Distribution_new keywords =
     (if list_all (\<lambda>k. k \<in> set [''dist_name'', ''copula'', ''params'', ''copula_params''])
           keywords
      then Inr () else Inl TypeError)"

text \<open>
  What the caller may pass as \<^verbatim>\<open>pdf_target\<close>, \<^verbatim>\<open>log_pdf_target\<close> or \<^verbatim>\<open>pdf_proposal\<close>: nothing,
  the name of a distribution, a list of names, a callable (with the number of parameters
  of its signature), or a list of callables, one per dimension.
\<close>

datatype ('x, 'p, 'v) target_arg =
    Absent
  | Name string
  | Names "string list"
  | Callable nat "'x \<Rightarrow> 'p \<Rightarrow> 'v"
  | Callables "('x \<Rightarrow> 'p \<Rightarrow> 'v) list"

text \<open>The log-density that the sampler will call: one joint function, or one per dimension.\<close>

datatype ('x, 'p) log_target =
    Joint "'x \<Rightarrow> 'p \<Rightarrow> error + logarr"
  | Marginal "('x \<Rightarrow> 'p \<Rightarrow> error + logarr) list"
  | Unset

datatype algorithm = MH | MMH | Stretch

text \<open>
  The last part of \<^verbatim>\<open>MCMC.init_mcmc\<close> (``Check log_pdf_target and pdf_target''). The
  distribution library is the parameter \<open>Distribution_log_pdf\<close>: \<^verbatim>\<open>Distribution(name).log_pdf\<close>
  for a name (\<open>Inl\<close>) or a list of names (\<open>Inr\<close>); here the name is passed by position, which
  binds it to \<^verbatim>\<open>dist_name\<close>. A name passed as \<^verbatim>\<open>log_pdf_target\<close> is kept as it is by the code
  and fails when it is first called; that \<open>TypeError\<close> is reported here.
\<close>

definition init_mcmc_target ::
  "(string + string list \<Rightarrow> 'x \<Rightarrow> 'p \<Rightarrow> error + logarr) \<Rightarrow> algorithm \<Rightarrow> nat \<Rightarrow>
   ('x, 'p, error + logarr) target_arg \<Rightarrow> ('x, 'p, npval) target_arg \<Rightarrow>
   error + ('x, 'p) log_target" where
  "init_mcmc_target Distribution_log_pdf alg dimension log_pdf_target pdf_target =
     (if log_pdf_target = Absent \<and> pdf_target = Absent then Inl ValueError
      else if (case log_pdf_target of Callables fs \<Rightarrow> length fs \<noteq> dimension
               | Names ns \<Rightarrow> length ns \<noteq> dimension | _ \<Rightarrow> False) then Inl ValueError
      else if (case pdf_target of Callables fs \<Rightarrow> length fs \<noteq> dimension
               | Names ns \<Rightarrow> length ns \<noteq> dimension | _ \<Rightarrow> False) then Inl ValueError
      else if alg = MMH then
        (case log_pdf_target of
           Callable k f \<Rightarrow> Inr (Joint f)
         | Callables fs \<Rightarrow> Inr (Marginal fs)
         | Name n \<Rightarrow> Inl TypeError
         | Names ns \<Rightarrow> Inl TypeError
         | Absent \<Rightarrow>
             (case pdf_target of
                Names ns \<Rightarrow>
                  (if ns = [] then Inl IndexError
                   else Inr (Marginal (map (\<lambda>n. Distribution_log_pdf (Inl n)) ns)))
              | Callables fs \<Rightarrow>
                  (if fs = [] then Inl IndexError
                   else Inr (Marginal (map (\<lambda>pdf_target_j. (\<lambda>x params.
                           compute_log_pdf x params pdf_target_j)) fs)))
              | Name n \<Rightarrow> Inr (Joint (Distribution_log_pdf (Inl n)))
              | Callable k f \<Rightarrow> Inr (Joint (\<lambda>x params. compute_log_pdf x params f))
              | Absent \<Rightarrow> Inr Unset))
      else
        (case log_pdf_target of
           Callables fs \<Rightarrow> Inl ValueError
         | Names ns \<Rightarrow> Inl ValueError
         | Callable k f \<Rightarrow> Inr (Joint f)
         | Name n \<Rightarrow> Inl TypeError
         | Absent \<Rightarrow>
             (case pdf_target of
                Name n \<Rightarrow> Inr (Joint (Distribution_log_pdf (Inl n)))
              | Names ns \<Rightarrow>
                  (if ns = [] then Inl IndexError else Inr (Joint (Distribution_log_pdf (Inr ns))))
              | Callable k f \<Rightarrow> Inr (Joint (\<lambda>x params. compute_log_pdf x params f))
              | Callables fs \<Rightarrow> (if fs = [] then Inl IndexError else Inl ValueError)
              | Absent \<Rightarrow> Inl ValueError)))"

text \<open>
  The part ``Check log_pdf_target, pdf_target'' of \<^verbatim>\<open>IS.init_is\<close>. For a named target the
  code calls \<^verbatim>\<open>Distribution(name=self.pdf_target, copula=self.pdf_target_copula)\<close>, with the
  keywords \<^verbatim>\<open>name\<close> and \<^verbatim>\<open>copula\<close>; \<^verbatim>\<open>partial(p.log_pdf, params=...)\<close> then fixes the
  parameters to \<open>pdf_target_params\<close>. The resolved function is later called as
  \<^verbatim>\<open>self.log_pdf_target(x, params=self.pdf_target_params)\<close>: a callable \<^verbatim>\<open>log_pdf_target\<close> of
  two parameters is taken to name them \<^verbatim>\<open>x\<close> and \<^verbatim>\<open>params\<close>, one of fewer parameters passes
  the check here and raises \<open>TypeError\<close> at that call.
\<close>

definition init_is_target ::
  "(string + string list \<Rightarrow> 'x \<Rightarrow> 'p \<Rightarrow> error + logarr) \<Rightarrow> 'p \<Rightarrow>
   ('x, 'p, error + logarr) target_arg \<Rightarrow> ('x, 'p, npval) target_arg \<Rightarrow>
   error + ('x \<Rightarrow> 'p \<Rightarrow> error + logarr)" where
  "init_is_target Distribution_log_pdf pdf_target_params log_pdf_target pdf_target =
     (if pdf_target = Absent \<and> log_pdf_target = Absent then Inl ValueError
      else if log_pdf_target \<noteq> Absent then
        (case log_pdf_target of
           Callable k f \<Rightarrow>
             (if k > 2 then Inl ValueError
              else if k = 2 then Inr f
              else Inr (\<lambda>x params. Inl TypeError))
         | _ \<Rightarrow> Inl ValueError)
      else
        (case pdf_target of
           Name n \<Rightarrow>
             (case Distribution_new [''name'', ''copula''] of
                Inl e \<Rightarrow> Inl e
              | Inr p \<Rightarrow> Inr (\<lambda>x params. Distribution_log_pdf (Inl n) x pdf_target_params))
         | Names ns \<Rightarrow>
             (if ns = [] then Inl IndexError
              else case Distribution_new [''name'', ''copula''] of
                     Inl e \<Rightarrow> Inl e
                   | Inr p \<Rightarrow> Inr (\<lambda>x params. Distribution_log_pdf (Inr ns) x pdf_target_params))
         | Callable k f \<Rightarrow>
             (if k \<noteq> 2 then Inl ValueError
              else Inr (\<lambda>x params. compute_log_pdf x params f))
         | Callables fs \<Rightarrow> (if fs = [] then Inl IndexError else Inl ValueError)
         | Absent \<Rightarrow> Inl ValueError))"

section \<open>Importance sampling\<close>

text \<open>
  The arguments of \<^verbatim>\<open>IS.__init__\<close>. \<open>'x\<close> is the type of the sample array, as the
  distribution library produces and consumes it.
\<close>

record ('x, 'p, 'q) is_args =
  is_dimension :: "nat option"
  is_nsamples_arg :: "nat option"
  pdf_proposal :: "('x, 'q, npval) target_arg"
  pdf_proposal_params :: 'q
  is_pdf_target :: "('x, 'p, npval) target_arg"
  is_log_pdf_target :: "('x, 'p, error + logarr) target_arg"
  is_pdf_target_params :: 'p

text \<open>\<^verbatim>\<open>IS.init_is\<close>; its result is the resolved \<^verbatim>\<open>self.log_pdf_target\<close>.\<close>

definition init_is ::
  "(string + string list \<Rightarrow> 'x \<Rightarrow> 'p \<Rightarrow> error + logarr) \<Rightarrow> ('x, 'p, 'q) is_args \<Rightarrow>
   error + ('x \<Rightarrow> 'p \<Rightarrow> error + logarr)" where
  "init_is Distribution_log_pdf self =
     (if is_dimension self = None then Inl NotImplementedError
      else if is_nsamples_arg self = None then Inl NotImplementedError
      else
        case init_is_target Distribution_log_pdf (is_pdf_target_params self)
               (is_log_pdf_target self) (is_pdf_target self) of
          Inl e \<Rightarrow> Inl e
        | Inr log_pdf_target \<Rightarrow>
            (case pdf_proposal self of
               Absent \<Rightarrow> Inl ValueError
             | Name n \<Rightarrow> Inr log_pdf_target
             | Names ns \<Rightarrow> (if ns = [] then Inl IndexError else Inr log_pdf_target)
             | Callable k f \<Rightarrow> Inl ValueError
             | Callables fs \<Rightarrow> (if fs = [] then Inl IndexError else Inl ValueError)))"

text \<open>
  \<^verbatim>\<open>IS.sampling_step\<close>: \<^verbatim>\<open>Distribution(name=self.pdf_proposal, copula=self.pdf_proposal_copula)\<close>
  and then \<^verbatim>\<open>rvs\<close> of that distribution, which is the parameter \<open>rvs\<close>.
\<close>

definition sampling_step ::
  "(('x, 'q, npval) target_arg \<Rightarrow> 'q \<Rightarrow> nat option \<Rightarrow> 'x) \<Rightarrow> ('x, 'p, 'q) is_args \<Rightarrow>
   error + 'x" where
  "sampling_step rvs self =
     (case Distribution_new [''name'', ''copula''] of
        Inl e \<Rightarrow> Inl e
      | Inr proposal_pdf \<Rightarrow>
          Inr (rvs (pdf_proposal self) (pdf_proposal_params self) (is_nsamples_arg self)))"

text \<open>
  The arithmetic of \<^verbatim>\<open>IS.weighting_step\<close> on finite log-densities:
  \<^verbatim>\<open>log_weights = log_ps-log_qs\<close> with numpy's broadcasting (equal lengths, or one operand of
  length 1), \<^verbatim>\<open>weights = np.exp(log_weights)\<close>, \<^verbatim>\<open>sum_w = np.sum(weights, axis=0)\<close>, and the
  result \<^verbatim>\<open>log_weights, weights/sum_w\<close>.
\<close>

definition normalize_weights :: "real list \<Rightarrow> real list \<Rightarrow> error + real list \<times> real list" where
  "normalize_weights log_ps log_qs =
     (if length log_ps = length log_qs \<or> length log_ps = 1 \<or> length log_qs = 1
      then
        (let log_weights =
               (if length log_ps = length log_qs then map2 (\<lambda>p q. p - q) log_ps log_qs
                else if length log_ps = 1 then map (\<lambda>q. log_ps ! 0 - q) log_qs
                else map (\<lambda>p. p - log_qs ! 0) log_ps);
             weights' = map exp log_weights;
             sum_w = sum_list weights'
         in Inr (log_weights, map (\<lambda>w. w / sum_w) weights'))
      else Inl ValueError)"

text \<open>
  The entries of an array of log-densities when all of them are finite. Weights computed
  from \<^verbatim>\<open>-inf\<close> or \<^verbatim>\<open>nan\<close> are floats that exact reals do not represent: \<open>NonFinite\<close>.
\<close>

definition finite_values :: "logval list \<Rightarrow> real list option" where
  "finite_values ls =
     (if list_all (\<lambda>l. case l of Finite v \<Rightarrow> True | _ \<Rightarrow> False) ls
      then Some (map (\<lambda>l. case l of Finite v \<Rightarrow> v | _ \<Rightarrow> 0) ls)
      else None)"

datatype importance_weights = Weights "real list" "real list" | NonFinite

text \<open>
  \<^verbatim>\<open>IS.weighting_step\<close>: the distribution of the proposal is constructed again, its
  \<^verbatim>\<open>log_pdf\<close> (the parameter \<open>proposal_log_pdf\<close>, which returns a one-dimensional array with
  one entry per sample) and the resolved target are each called once on the whole sample
  array \<open>x\<close>. Against a one-dimensional array a scalar broadcasts as an array of one entry.
\<close>

definition weighting_step ::
  "(('x, 'q, npval) target_arg \<Rightarrow> 'x \<Rightarrow> 'q \<Rightarrow> error + logval list) \<Rightarrow>
   ('x \<Rightarrow> 'p \<Rightarrow> error + logarr) \<Rightarrow> ('x, 'p, 'q) is_args \<Rightarrow> 'x \<Rightarrow>
   error + importance_weights" where
  "weighting_step proposal_log_pdf log_pdf_target self x =
     (case Distribution_new [''name'', ''copula''] of
        Inl e \<Rightarrow> Inl e
      | Inr proposal_pdf \<Rightarrow>
          (case proposal_log_pdf (pdf_proposal self) x (pdf_proposal_params self) of
             Inl e \<Rightarrow> Inl e
           | Inr log_qs \<Rightarrow>
               (case log_pdf_target x (is_pdf_target_params self) of
                  Inl e \<Rightarrow> Inl e
                | Inr log_ps \<Rightarrow>
                    (case (finite_values (case log_ps of LogScalar l \<Rightarrow> [l] | LogArray ls \<Rightarrow> ls),
                           finite_values log_qs) of
                       (Some ps, Some qs) \<Rightarrow>
                         (case normalize_weights ps qs of
                            Inl e \<Rightarrow> Inl e
                          | Inr (log_weights, weights') \<Rightarrow> Inr (Weights log_weights weights'))
                     | _ \<Rightarrow> Inr NonFinite))))"

text \<open>
  \<^verbatim>\<open>IS.__init__\<close>: the checks, the sampling step and the weighting step; the result is the
  sample array with its weights.
\<close>

definition IS_init ::
  "(string + string list \<Rightarrow> 'x \<Rightarrow> 'p \<Rightarrow> error + logarr) \<Rightarrow>
   (('x, 'q, npval) target_arg \<Rightarrow> 'q \<Rightarrow> nat option \<Rightarrow> 'x) \<Rightarrow>
   (('x, 'q, npval) target_arg \<Rightarrow> 'x \<Rightarrow> 'q \<Rightarrow> error + logval list) \<Rightarrow>
   ('x, 'p, 'q) is_args \<Rightarrow> error + 'x \<times> importance_weights" where
  "IS_init Distribution_log_pdf rvs proposal_log_pdf self =
     (case init_is Distribution_log_pdf self of
        Inl e \<Rightarrow> Inl e
      | Inr log_pdf_target \<Rightarrow>
          (case sampling_step rvs self of
             Inl e \<Rightarrow> Inl e
           | Inr x \<Rightarrow>
               (case weighting_step proposal_log_pdf log_pdf_target self x of
                  Inl e \<Rightarrow> Inl e
                | Inr w \<Rightarrow> Inr (x, w))))"

text \<open>
  \<^verbatim>\<open>IS.resample\<close>, on the fields of a completed run that it reads. \<open>multinomial_run\<close> is
  the vector of counts that \<^verbatim>\<open>np.random.multinomial(size, self.weights, size=1)[0]\<close> returned.
\<close>

record 'x importance_sampler =
  is_nsamples :: nat
  is_samples :: "'x list"
  is_weights :: "real list"

definition resample ::
  "'x importance_sampler \<Rightarrow> string \<Rightarrow> nat option \<Rightarrow> (nat \<Rightarrow> real list \<Rightarrow> nat list) \<Rightarrow>
   error + 'x list" where
  "resample self method size0 multinomial =
     (let size = (case size0 of None \<Rightarrow> is_nsamples self | Some n \<Rightarrow> n) in
      if method = ''multinomial'' then
        (let multinomial_run = multinomial size (is_weights self) in
         if length multinomial_run < is_nsamples self then Inl IndexError
         else
           let idx = concat (map (\<lambda>j. if multinomial_run ! j > 0
                                       then replicate (multinomial_run ! j) j else [])
                             [0..<is_nsamples self])
           in if \<exists>i\<in>set idx. length (is_samples self) \<le> i then Inl IndexError
              else Inr (map (\<lambda>i. is_samples self ! i) idx))
      else Inl ValueError)"

section \<open>Markov chain Monte Carlo\<close>

text \<open>
  \<^verbatim>\<open>MCMC.run_mcmc\<close> is entered from \<^verbatim>\<open>MCMC.__init__\<close>, after \<^verbatim>\<open>init_mcmc\<close> has resolved the
  target and after \<^verbatim>\<open>__init__\<close> has reset \<^verbatim>\<open>pdf_target_type\<close> to \<^verbatim>\<open>None\<close> for MMH (the
  comparison \<^verbatim>\<open>self.algorithm is 'MMH'\<close> of two equal interned strings is modelled as
  equality). So the branch for \<^verbatim>\<open>marginal_pdf\<close> is never taken and the target is called as
  one function of the whole state: \<open>log_pdf_target\<close> below is that function, with the
  parameters \<^verbatim>\<open>pdf_target_params\<close> already supplied, returning a finite value.

  \<^verbatim>\<open>init_mcmc\<close> also leaves \<^verbatim>\<open>pdf_proposal_type\<close> and \<^verbatim>\<open>pdf_proposal_scale\<close> as lists with
  exactly one entry per dimension, and raises otherwise; the run below reports lists of
  another length as \<open>ValueError\<close>.

  The seed is a numpy array: one point, or one row per walker.
\<close>

datatype proposal = Normal | Uniform

datatype seed_arg = Point "real list" | Ensemble "real list list"

record mcmc =
  dimension :: nat
  pdf_proposal_type :: "proposal list"
  pdf_proposal_scale :: "real list"
  log_pdf_target :: "real list \<Rightarrow> real"
  algorithm :: algorithm
  jump :: nat
  nsamples :: nat
  seed :: seed_arg
  nburn :: nat

text \<open>
  The variates drawn during a run, indexed by the loop variables of the draw:
  \<open>noise i j\<close> is the standard normal or uniform \<open>[0, 1)\<close> variate behind the proposal of
  coordinate \<open>j\<close> in iteration \<open>i\<close> (\<^verbatim>\<open>np.random.normal(loc, scale)\<close> is \<open>loc + scale * z\<close>,
  \<^verbatim>\<open>np.random.uniform(low, high)\<close> is \<open>low + (high - low) * v\<close>); \<open>accept_u i j\<close> is the value of
  \<^verbatim>\<open>np.random.random()\<close> in the acceptance test (\<open>j = 0\<close> where there is one test per
  iteration); \<open>choice i\<close> is the index that \<^verbatim>\<open>random.choice\<close> picks in the complementary
  ensemble; \<open>stretch_u i\<close> is the value of \<^verbatim>\<open>random.random()\<close> in the stretch factor.
\<close>

record draws =
  noise :: "nat \<Rightarrow> nat \<Rightarrow> real"
  accept_u :: "nat \<Rightarrow> nat \<Rightarrow> real"
  choice :: "nat \<Rightarrow> nat"
  stretch_u :: "nat \<Rightarrow> real"

text \<open>
  \<^verbatim>\<open>accept = np.log(np.random.random()) < log_p_accept\<close>: comparison of floats, where
  \<^verbatim>\<open>-inf\<close> is below every finite value and not below itself, and \<^verbatim>\<open>nan\<close> compares false.
\<close>

fun logval_less :: "logval \<Rightarrow> logval \<Rightarrow> bool" where
  "logval_less (Finite a) (Finite b) = (a < b)"
| "logval_less NegInf (Finite b) = True"
| "logval_less _ _ = False"

fun logval_add :: "logval \<Rightarrow> real \<Rightarrow> logval" where
  "logval_add (Finite a) b = Finite (a + b)"
| "logval_add NegInf b = NegInf"
| "logval_add NaN b = NaN"

text \<open>Python's \<^verbatim>\<open>range(start, stop, step)\<close> for a positive step.\<close>

definition py_range :: "nat \<Rightarrow> nat \<Rightarrow> nat \<Rightarrow> nat list" where
  "py_range start stop step = map (\<lambda>k. start + k * step) [0..<(stop - start + step - 1) div step]"

text \<open>
  Assigning the seed into a block of \<open>r\<close> rows of length \<open>d\<close> of the sample array, with
  numpy's broadcasting: a dimension of the seed must match or be 1.
\<close>

definition broadcast_seed :: "nat \<Rightarrow> nat \<Rightarrow> seed_arg \<Rightarrow> error + real list list" where
  "broadcast_seed r d sd =
     (case sd of
        Point p \<Rightarrow>
          (if length p = d then Inr (replicate r p)
           else if length p = 1 then Inr (replicate r (replicate d (p ! 0)))
           else Inl ValueError)
      | Ensemble rows \<Rightarrow>
          (if (length rows = r \<or> length rows = 1) \<and> rows \<noteq> []
              \<and> (\<forall>row\<in>set rows. length row = d \<or> length row = 1)
           then Inr (map (\<lambda>k. let row = (if length rows = 1 then rows ! 0 else rows ! k)
                               in if length row = d then row else replicate d (row ! 0))
                         [0..<r])
           else Inl ValueError))"

definition seed_len :: "seed_arg \<Rightarrow> nat" where
  "seed_len sd = (case sd of Point p \<Rightarrow> length p | Ensemble rows \<Rightarrow> length rows)"

subsection \<open>Metropolis-Hastings\<close>

text \<open>
  One iteration of the MH loop. The state is the sample array, \<^verbatim>\<open>log_p_current\<close> and
  \<^verbatim>\<open>n_accepts\<close>. The two branches on \<^verbatim>\<open>pdf_proposal_type[0]\<close> differ in the candidate only.
\<close>

definition mh_candidate :: "mcmc \<Rightarrow> draws \<Rightarrow> nat \<Rightarrow> real list \<Rightarrow> real list" where
  "mh_candidate self rnd i cur =
     (case pdf_proposal_type self ! 0 of
        Normal \<Rightarrow>
          map (\<lambda>j. cur ! j + pdf_proposal_scale self ! j * noise rnd i j) [0..<dimension self]
      | Uniform \<Rightarrow>
          map (\<lambda>j. let low = - (pdf_proposal_scale self ! j) / 2;
                       high = pdf_proposal_scale self ! j / 2
                   in cur ! j + (low + (high - low) * noise rnd i j)) [0..<dimension self])"

definition mh_step ::
  "mcmc \<Rightarrow> draws \<Rightarrow> nat \<Rightarrow> real list list \<times> real \<times> nat \<Rightarrow> real list list \<times> real \<times> nat" where
  "mh_step self rnd i st =
     (case st of (samples, log_p_current, n_accepts) \<Rightarrow>
        let candidate = mh_candidate self rnd i (samples ! i);
            log_p_candidate = log_pdf_target self candidate;
            log_p_accept = log_p_candidate - log_p_current;
            accept = logval_less (np_log (accept_u rnd i 0)) (Finite log_p_accept)
        in if accept
           then (samples[i + 1 := candidate], log_p_candidate, n_accepts + 1)
           else (samples[i + 1 := samples ! i], log_p_current, n_accepts))"

subsection \<open>Modified (component-wise) Metropolis-Hastings\<close>

text \<open>
  The inner loop over the coordinates \<open>j\<close>; the state is \<^verbatim>\<open>candidate\<close>, \<^verbatim>\<open>current\<close>,
  \<^verbatim>\<open>log_p_current\<close> and \<^verbatim>\<open>n_accepts\<close>. \<open>prev\<close> is the row \<^verbatim>\<open>samples[i, :]\<close>.
\<close>

definition mmh_coordinate ::
  "mcmc \<Rightarrow> draws \<Rightarrow> nat \<Rightarrow> real list \<Rightarrow> nat \<Rightarrow>
   real list \<times> real list \<times> real \<times> nat \<Rightarrow> real list \<times> real list \<times> real \<times> nat" where
  "mmh_coordinate self rnd i prev j st =
     (case st of (candidate, current, log_p_current, n_accepts) \<Rightarrow>
        let candidate1 = candidate[j :=
              (case pdf_proposal_type self ! j of
                 Normal \<Rightarrow> prev ! j + pdf_proposal_scale self ! j * noise rnd i j
               | Uniform \<Rightarrow>
                   (let low = prev ! j - pdf_proposal_scale self ! j / 2;
                        high = prev ! j + pdf_proposal_scale self ! j / 2
                    in low + (high - low) * noise rnd i j))];
            log_p_candidate = log_pdf_target self candidate1;
            log_p_accept = log_p_candidate - log_p_current;
            accept = logval_less (np_log (accept_u rnd i j)) (Finite log_p_accept)
        in if accept
           then (candidate1, current[j := candidate1 ! j], log_p_candidate, n_accepts + 1)
           else (candidate1[j := current ! j], current, log_p_current, n_accepts))"

definition mmh_step ::
  "mcmc \<Rightarrow> draws \<Rightarrow> nat \<Rightarrow> real list list \<times> nat \<Rightarrow> real list list \<times> nat" where
  "mmh_step self rnd i st =
     (case st of (samples, n_accepts) \<Rightarrow>
        let candidate = samples ! i;
            current = samples ! i;
            log_p_current = log_pdf_target self (samples ! i);
            r = fold (mmh_coordinate self rnd i (samples ! i)) [0..<dimension self]
                  (candidate, current, log_p_current, n_accepts)
        in (case r of (candidate', current', log_p_current', n_accepts') \<Rightarrow>
              (samples[i + 1 := current'], n_accepts')))"

subsection \<open>Affine invariant ensemble sampler with stretch moves\<close>

text \<open>\<^verbatim>\<open>samples[i - self.ensemble_size + 2:i + 1, :]\<close>, for \<open>i \<ge> ensemble_size - 1\<close>.\<close>

definition complementary_ensemble :: "real list list \<Rightarrow> nat \<Rightarrow> nat \<Rightarrow> real list list" where
  "complementary_ensemble samples i ensemble_size =
     take (i + 1 - (i + 2 - ensemble_size)) (drop (i + 2 - ensemble_size) samples)"

text \<open>\<^verbatim>\<open>(1 + (self.pdf_proposal_scale[0] - 1) * random.random()) ** 2 / self.pdf_proposal_scale[0]\<close>\<close>

definition stretch_factor :: "real \<Rightarrow> real \<Rightarrow> real" where
  "stretch_factor a u = (1 + (a - 1) * u) ^ 2 / a"

text \<open>
  \<^verbatim>\<open>s0 + s * (samples[i - self.ensemble_size + 1, :] - s0)\<close>; the index
  \<open>i - ensemble_size + 1\<close> of the walker is written \<open>i + 1 - ensemble_size\<close> on naturals.
\<close>

definition stretch_candidate :: "real list \<Rightarrow> real \<Rightarrow> real list \<Rightarrow> real list" where
  "stretch_candidate s0 s walker = map2 (\<lambda>c w. c + s * (w - c)) s0 walker"

text \<open>
  \<^verbatim>\<open>np.log(np.random.random()) < np.log(s ** (self.dimension - 1)) + log_p_candidate - log_p_current\<close>
\<close>

definition stretch_accept :: "nat \<Rightarrow> real \<Rightarrow> real \<Rightarrow> real \<Rightarrow> real \<Rightarrow> bool" where
  "stretch_accept d s log_p_candidate log_p_current u =
     logval_less (np_log u)
       (logval_add (np_log (power_int s (int d - 1))) (log_p_candidate - log_p_current))"

definition stretch_step ::
  "mcmc \<Rightarrow> draws \<Rightarrow> nat \<Rightarrow> nat \<Rightarrow> real list list \<times> real list \<times> nat \<Rightarrow>
   real list list \<times> real list \<times> nat" where
  "stretch_step self rnd ensemble_size i st =
     (case st of (samples, list_log_p_current, n_accepts) \<Rightarrow>
        let s0 = complementary_ensemble samples i ensemble_size ! choice rnd i;
            s = stretch_factor (pdf_proposal_scale self ! 0) (stretch_u rnd i);
            candidate = stretch_candidate s0 s (samples ! (i + 1 - ensemble_size));
            log_p_candidate = log_pdf_target self candidate;
            log_p_current = list_log_p_current ! (i + 1 - ensemble_size);
            accept = stretch_accept (dimension self) s log_p_candidate log_p_current
                       (accept_u rnd i 0)
        in if accept
           then (samples[i + 1 := candidate], list_log_p_current @ [log_p_candidate],
                 n_accepts + 1)
           else (samples[i + 1 := samples ! (i + 1 - ensemble_size)],
                 list_log_p_current @ [list_log_p_current ! (i + 1 - ensemble_size)],
                 n_accepts))"

text \<open>
  The loop that de-interleaves the walkers: \<^verbatim>\<open>output[j:j + M, :] = samples[i:i + M, :]\<close> for
  \<open>i\<close> in \<open>is\<close>. A block of another number of rows than the slice it is assigned to raises,
  unless it is one row, which is broadcast.
\<close>

definition assign_block ::
  "real list list \<Rightarrow> nat \<Rightarrow> nat \<Rightarrow> real list list \<Rightarrow> error + real list list" where
  "assign_block output j M src =
     (let n = length (take M (drop j output))
      in if length src = n then Inr (take j output @ src @ drop (j + n) output)
         else if length src = 1
         then Inr (take j output @ replicate n (src ! 0) @ drop (j + n) output)
         else Inl ValueError)"

fun stretch_output ::
  "nat \<Rightarrow> real list list \<Rightarrow> nat list \<Rightarrow> nat \<Rightarrow> real list list \<Rightarrow> error + real list list" where
  "stretch_output M samples [] j output = Inr output"
| "stretch_output M samples (i # is) j output =
     (case assign_block output j M (take M (drop i samples)) of
        Inl e \<Rightarrow> Inl e
      | Inr output' \<Rightarrow> stretch_output M samples is (j + M) output')"

subsection \<open>The run\<close>

definition run_mcmc :: "mcmc \<Rightarrow> draws \<Rightarrow> error + real list list \<times> real" where
  "run_mcmc self rnd =
     (let d = dimension self;
          nrows = nsamples self * jump self + nburn self;
          samples0 = replicate nrows (replicate d (0::real));
          n_iter = nsamples self * jump self + nburn self - 1
      in
      if algorithm self = MH \<or> algorithm self = MMH then
        (if nrows = 0 then Inl IndexError
         else case broadcast_seed 1 d (seed self) of
           Inl e \<Rightarrow> Inl e
         | Inr rows \<Rightarrow>
            (let samples1 = samples0[0 := rows ! 0] in
             if length (pdf_proposal_type self) = d \<and> length (pdf_proposal_scale self) = d
             then
               (let (samples, n_accepts) =
                 (if algorithm self = MH
                  then (case fold (mh_step self rnd) [0..<n_iter]
                               (samples1, log_pdf_target self (samples1 ! 0), 0) of
                          (samples, log_p_current, n_accepts) \<Rightarrow> (samples, n_accepts))
                  else fold (mmh_step self rnd) [0..<n_iter] (samples1, 0))
               in if n_iter = 0 then Inl ZeroDivisionError
                  else if jump self = 0 then Inl ValueError
                  else Inr (map (\<lambda>k. samples ! k)
                              (py_range (nburn self) (nsamples self * jump self + nburn self)
                                 (jump self)),
                            real n_accepts / real n_iter))
             else Inl ValueError))
      else
        (let ensemble_size = seed_len (seed self) in
         case broadcast_seed (min ensemble_size nrows) d (seed self) of
           Inl e \<Rightarrow> Inl e
         | Inr rows \<Rightarrow>
            (if nrows < ensemble_size then Inl ValueError
             else
               let samples1 = rows @ drop ensemble_size samples0;
                   list_log_p_current = map (\<lambda>i. log_pdf_target self (samples1 ! i))
                                          [0..<ensemble_size];
                   stop = nsamples self * jump self - 1
               in if ensemble_size - 1 < stop \<and> pdf_proposal_scale self = [] then Inl IndexError
                  else if ensemble_size - 1 < stop \<and> pdf_proposal_scale self ! 0 = 0
                  then Inl ZeroDivisionError
                  else if ensemble_size - 1 < stop \<and> ensemble_size < 2 then Inl IndexError
                  else
                    (case fold (stretch_step self rnd ensemble_size) [ensemble_size - 1..<stop]
                            (samples1, list_log_p_current, 0) of
                       (samples, list_log_p_current', n_accepts) \<Rightarrow>
                         if nsamples self * jump self = ensemble_size then Inl ZeroDivisionError
                         else if jump self = 0 then Inl ValueError
                         else
                           (case stretch_output ensemble_size samples
                                   (py_range (jump self * ensemble_size - ensemble_size) nrows
                                      (jump self * ensemble_size))
                                   0 (replicate (nsamples self) (replicate d 0)) of
                              Inl e \<Rightarrow> Inl e
                            | Inr output \<Rightarrow>
                                Inr (output,
                                     real n_accepts
                                       / (real (nsamples self * jump self) - real ensemble_size)))))))"

section \<open>Kriging surrogate\<close>

text \<open>
  A name of the source that ends in an underscore (\<^verbatim>\<open>s_\<close>, \<^verbatim>\<open>r__\<close>) ends in a prime
  here. A two-dimensional array is a function from row and column index to the entry; the
  dimensions are passed where an operation needs them. \<open>matmul n A B\<close> is \<^verbatim>\<open>np.matmul(A, B)\<close>
  (and \<^verbatim>\<open>np.einsum('ij,jk->ik', A, B)\<close>) for an inner dimension \<open>n\<close>.
\<close>

type_synonym mat = "nat \<Rightarrow> nat \<Rightarrow> real"

definition matmul :: "nat \<Rightarrow> mat \<Rightarrow> mat \<Rightarrow> mat" where
  "matmul n A B = (\<lambda>i k. \<Sum>j<n. A i j * B j k)"

definition transpose_m :: "mat \<Rightarrow> mat" where
  "transpose_m A = (\<lambda>i j. A j i)"

definition of_rows :: "real list list \<Rightarrow> mat" where
  "of_rows rows = (\<lambda>i j. rows ! i ! j)"

text \<open>
  The routines of \<^verbatim>\<open>np.linalg\<close> that the fit calls, with the number of rows (and columns)
  of their argument. \<open>None\<close> is \<^verbatim>\<open>LinAlgError\<close>.
\<close>

record linalg =
  np_det :: "nat \<Rightarrow> mat \<Rightarrow> real"
  np_cholesky :: "nat \<Rightarrow> mat \<Rightarrow> mat option"
  np_inv :: "nat \<Rightarrow> mat \<Rightarrow> mat option"
  np_qr :: "nat \<Rightarrow> nat \<Rightarrow> mat \<Rightarrow> mat \<times> mat"
  np_matrix_rank :: "nat \<Rightarrow> nat \<Rightarrow> mat \<Rightarrow> nat"
  np_solve :: "nat \<Rightarrow> mat \<Rightarrow> mat \<Rightarrow> mat option"

text \<open>
  The model after \<^verbatim>\<open>init_krig\<close>: the regression model is a function from points to the
  number of basis functions and the design matrix \<^verbatim>\<open>fx\<close>; the correlation model is a
  function \<^verbatim>\<open>c(x, s, params)\<close> whose result has one row per point of \<open>s\<close> and one column per
  point of \<open>x\<close>.
\<close>

record krig =
  krig_samples :: "real list list"
  krig_values :: "real list list"
  reg_model :: "real list list \<Rightarrow> nat \<times> mat"
  corr_model :: "real list list \<Rightarrow> real list list \<Rightarrow> real list \<Rightarrow> mat"
  corr_model_params :: "real list"
  bounds :: "(real \<times> real) list"

record krig_fit =
  beta :: mat
  gamma :: mat
  sig :: "real list"
  F_dash :: mat
  C_inv :: mat
  G :: mat
  fit_params :: "real list"

text \<open>
  The guard before the optimization in \<^verbatim>\<open>Krig.run_krig\<close>:
  \<^verbatim>\<open>while np.linalg.det(r_) < 10**(-12): self.corr_model_params = 1.5*self.corr_model_params\<close>.
  \<open>det_r\<close> maps the parameters to the determinant of the correlation matrix of the samples.
  The loop has no bound; a run that never leaves it is \<open>None\<close>.
\<close>

partial_function (option) inflate_params :: "(real list \<Rightarrow> real) \<Rightarrow> real list \<Rightarrow> real list option" where
  "inflate_params det_r params =
     (if det_r params < 1 / 10 ^ 12
      then inflate_params det_r (map (\<lambda>t. 15 / 10 * t) params)
      else Some params)"

text \<open>The cost that the likelihood returns: a number or \<^verbatim>\<open>np.inf\<close>.\<close>

datatype cost = Cost real | PInf

text \<open>
  \<^verbatim>\<open>log_likelihood(p0, s, m, n, f, y)\<close>, nested in \<^verbatim>\<open>Krig.run_krig\<close>. The lines after the two
  guards (whitening by the inverse factor, QR least squares, the likelihood value and the
  gradient loop) use only the factor \<^verbatim>\<open>cc\<close>, the data and numpy's linear algebra; they are
  the parameter \<open>ll_rest\<close>, which may raise.
\<close>

definition log_likelihood ::
  "linalg \<Rightarrow> krig \<Rightarrow> (mat \<Rightarrow> error + cost \<times> real list) \<Rightarrow> real list \<Rightarrow> nat \<Rightarrow> nat \<Rightarrow>
   error + cost \<times> real list" where
  "log_likelihood la self ll_rest p0 m n =
     (let r'' = corr_model self (krig_samples self) (krig_samples self) p0 in
      case np_cholesky la m r'' of
        None \<Rightarrow> Inr (PInf, replicate n 0)
      | Some cc \<Rightarrow>
          if (\<Prod>i<m. cc i i) = 0 then Inr (PInf, replicate n 0)
          else ll_rest cc)"

text \<open>
  The lines of \<^verbatim>\<open>Krig.run_krig\<close> after the optimization, at the optimal parameters \<open>p\<close>
  (which the code stores in \<^verbatim>\<open>self.corr_model_params\<close>).
\<close>

definition krig_fit_at :: "linalg \<Rightarrow> krig \<Rightarrow> real list \<Rightarrow> error + krig_fit" where
  "krig_fit_at la self p =
     (let s' = krig_samples self;
          y' = of_rows (krig_values self);
          m' = length s'
      in if m' = 0 then Inl ZeroDivisionError
      else
        let q = sum_list (map length (krig_values self)) div m';
            (nf, f') = reg_model self s';
            r' = corr_model self s' s' p
        in case np_cholesky la m' r' of
             None \<Rightarrow> Inl LinAlgError
           | Some c \<Rightarrow>
              (case np_inv la m' c of
                 None \<Rightarrow> Inl LinAlgError
               | Some c_inv \<Rightarrow>
                  (let f_dash = matmul m' c_inv f';
                       y_dash = matmul m' c_inv y';
                       (q', g') = np_qr la m' nf f_dash
                   in if np_matrix_rank la (min m' nf) nf g' \<noteq> min m' nf
                      then Inl NotImplementedError
                      else
                        (case np_solve la nf g' (matmul m' (transpose_m q') y_dash) of
                           None \<Rightarrow> Inl LinAlgError
                         | Some beta' \<Rightarrow>
                            (let gamma' = matmul m' (matmul m' (transpose_m c_inv) c_inv)
                                            (\<lambda>i k. y' i k - matmul nf f' beta' i k);
                                 sigma = map (\<lambda>l. (1 / real m')
                                           * (\<Sum>i<m'. (y_dash i l - matmul nf f_dash beta' i l) ^ 2))
                                           [0..<q]
                             in Inr \<lparr>beta = beta', gamma = gamma', sig = sigma,
                                     F_dash = f_dash, C_inv = c_inv, G = g',
                                     fit_params = p\<rparr>)))))"

text \<open>
  \<^verbatim>\<open>Krig.run_krig\<close>: the guard, the call of \<^verbatim>\<open>scipy.optimize.fmin_l_bfgs_b\<close> (the parameter
  \<open>fmin_l_bfgs_b\<close>, from the objective, the start and the bounds to the optimum; an
  exception of the objective passes through it), and the fit.
\<close>

definition run_krig ::
  "linalg \<Rightarrow> ((real list \<Rightarrow> error + cost \<times> real list) \<Rightarrow> real list \<Rightarrow> (real \<times> real) list \<Rightarrow>
      error + real list) \<Rightarrow>
   (real list \<Rightarrow> mat \<Rightarrow> error + cost \<times> real list) \<Rightarrow> krig \<Rightarrow> (error + krig_fit) option" where
  "run_krig la fmin_l_bfgs_b ll_rest self =
     (let s' = krig_samples self;
          m' = length s';
          n' = (case s' of [] \<Rightarrow> 0 | row # _ \<Rightarrow> length row)
      in if m' = 0 then Some (Inl ZeroDivisionError)
      else
        case inflate_params (\<lambda>p. np_det la m' (corr_model self s' s' p))
               (corr_model_params self) of
          None \<Rightarrow> None
        | Some p1 \<Rightarrow>
            (case fmin_l_bfgs_b (\<lambda>p0. log_likelihood la self (ll_rest p0) p0 m' n') p1
                    (bounds self) of
               Inl e \<Rightarrow> Some (Inl e)
             | Inr p_opt \<Rightarrow> Some (krig_fit_at la self p_opt)))"

text \<open>\<^verbatim>\<open>Krig.interpolate(x)\<close> with \<^verbatim>\<open>dy=False\<close>: \<open>fx \<beta> + rx\<^sup>T \<gamma>\<close>.\<close>

definition interpolate :: "krig \<Rightarrow> krig_fit \<Rightarrow> real list list \<Rightarrow> mat" where
  "interpolate self ft x =
     (let (nf, fx) = reg_model self x;
          rx = corr_model self x (krig_samples self) (fit_params ft)
      in (\<lambda>i k. matmul nf fx (beta ft) i k
                 + matmul (length (krig_samples self)) (transpose_m rx) (gamma ft) i k))"

section \<open>Strata: proofs\<close>

lemma prod_list_halve:
  fixes xs :: "real list"
  shows "d < length xs \<Longrightarrow> prod_list (xs[d := xs ! d / 2]) = prod_list xs / 2"
proof (induction xs arbitrary: d)
  case Nil
  then show ?case by simp
next
  case (Cons x xs)
  then show ?case by (cases d) simp_all
qed

lemma sum_list_halve:
  fixes xs :: "real list"
  shows "b < length xs \<Longrightarrow> sum_list (xs[b := xs ! b / 2]) + xs ! b / 2 = sum_list xs"
proof (induction xs arbitrary: b)
  case Nil
  then show ?case by simp
next
  case (Cons x xs)
  then show ?case by (cases b) (simp_all add: add.assoc)
qed

lemma split_inv:
  assumes "strata_inv st" and "split st u b d = Inr st'"
  shows "strata_inv st'"
proof -
  from assms(2) have b: "b < length (widths st)" and d: "d < length (widths st ! b)"
    by (auto simp: split_def split: if_splits)
  let ?row = "(widths st ! b)[d := widths st ! b ! d / 2]"
  let ?w1 = "(widths st)[b := ?row]"
  let ?g = "map prod_list (widths st)"
  have w': "widths st' = ?w1 @ [?w1 ! b]"
    using assms(2) by (auto simp: split_def Let_def split: if_splits)
  have g': "weights st' = (weights st)[b := weights st ! b / 2] @ [(weights st)[b := weights st ! b / 2] ! b]"
    using assms(2) by (auto simp: split_def Let_def split: if_splits)
  have wg: "weights st = ?g" and sf: "sum_list ?g = 1"
    using assms(1) by (simp_all add: strata_inv_def space_fill_def)
  have row: "prod_list ?row = prod_list (widths st ! b) / 2"
    using d by (rule prod_list_halve)
  have m1: "map prod_list ?w1 = ?g[b := ?g ! b / 2]"
    by (simp only: map_update row nth_map[OF b])
  have nb: "?w1 ! b = ?row" using b by simp
  have gb: "(?g[b := ?g ! b / 2]) ! b = ?g ! b / 2" using b by simp
  have eq: "weights st' = map prod_list (widths st')"
    unfolding w' g' wg using m1 nb gb row b by simp
  have "sum_list (map prod_list (widths st')) = sum_list (?g[b := ?g ! b / 2]) + ?g ! b / 2"
    unfolding w' using m1 nb row b by simp
  also have "\<dots> = sum_list ?g" using b by (intro sum_list_halve) simp
  finally have "space_fill (widths st') = 1" using sf by (simp add: space_fill_def)
  with eq show ?thesis by (simp add: strata_inv_def)
qed

lemma run_splits_inv:
  "strata_inv st \<Longrightarrow> run_splits st ops = Inr st' \<Longrightarrow> strata_inv st'"
proof (induction ops arbitrary: st)
  case Nil
  then show ?case by simp
next
  case (Cons op ops)
  obtain u b d where op: "op = (u, b, d)" by (cases op) auto
  from Cons.prems(2) obtain st1 where s1: "split st u b d = Inr st1"
    and r: "run_splits st1 ops = Inr st'"
    by (auto simp: op split: sum.splits)
  from split_inv[OF Cons.prems(1) s1] Cons.IH r show ?case by blast
qed

lemma prod_list_inverse_levels:
  "prod_list (map (\<lambda>n. 1 / real n) ns) = 1 / real (prod_list ns)"
  by (induction ns) simp_all

lemma prod_list_levels_pos: "\<forall>n\<in>set ns. (0::nat) < n \<Longrightarrow> 0 < prod_list ns"
  by (induction ns) auto

lemma fullfact_rows:
  "levels \<noteq> [] \<Longrightarrow> \<exists>ff. fullfact levels = Inr ff \<and> length ff = prod_list levels"
  by (simp add: fullfact_def Let_def)

lemma Strata_init_fullfact_inv:
  assumes "n_strata \<noteq> []" and "\<forall>n\<in>set n_strata. 0 < n"
  shows "\<exists>st0. Strata_init (Some n_strata) None None None = Inr st0 \<and> strata_inv st0"
proof -
  from fullfact_rows[OF assms(1)] obtain ff where ff: "fullfact n_strata = Inr ff"
    and len: "length ff = prod_list n_strata" by blast
  let ?org = "map (\<lambda>row. map2 (\<lambda>v n. v / real n) row n_strata) ff"
  let ?wid = "map (\<lambda>row. map (\<lambda>n. 1 / real n) n_strata) ?org"
  let ?st = "\<lparr>origins = ?org, widths = ?wid, weights = map prod_list ?wid\<rparr>"
  have init: "Strata_init (Some n_strata) None None None = Inr ?st"
    by (simp add: Strata_init_def ff Let_def)
  have pos: "0 < real (prod_list n_strata)"
    using prod_list_levels_pos[OF assms(2)] by simp
  have "space_fill ?wid = real (length ff) * (1 / real (prod_list n_strata))"
    by (simp add: space_fill_def o_def prod_list_inverse_levels sum_list_triv)
  also have "\<dots> = 1" using pos len by simp
  finally have "strata_inv ?st" by (simp add: strata_inv_def)
  with init show ?thesis by blast
qed

text \<open>
  C2. A partition built by the full-factorial construction from a list of positive
  per-axis stratum counts is space-filling (the volumes, i.e. the products of the per-axis
  widths, sum to 1) and every weight is the product of the stratum's widths; both
  properties still hold after every finite sequence of splits.
\<close>

theorem strata_space_filling:
  assumes "n_strata \<noteq> []" and "\<forall>n\<in>set n_strata. 0 < n"
  shows "\<exists>st0. Strata_init (Some n_strata) None None None = Inr st0
           \<and> space_fill (widths st0) = 1 \<and> weights st0 = map prod_list (widths st0)
           \<and> (\<forall>ops st. run_splits st0 ops = Inr st \<longrightarrow>
                 space_fill (widths st) = 1 \<and> weights st = map prod_list (widths st))"
proof -
  from Strata_init_fullfact_inv[OF assms] obtain st0
    where i: "Strata_init (Some n_strata) None None None = Inr st0" and inv: "strata_inv st0"
    by blast
  have "\<forall>ops st. run_splits st0 ops = Inr st \<longrightarrow> strata_inv st"
    using run_splits_inv[OF inv] by blast
  with i inv show ?thesis unfolding strata_inv_def by blast
qed

text \<open>The grid of two strata per axis in two dimensions, evaluated.\<close>

lemma fullfact_cols_2_2: "fullfact_cols [2, 2] (Suc 0) 4 = [[0, 1, 0, 1], [0, 0, 1, 1]]"
  by code_simp

lemma upt_0_4: "[0..<4] = [0, 1, 2, 3]"
  by code_simp

lemma fullfact_2_2: "fullfact [2, 2] = Inr [[0, 0], [1, 0], [0, 1], [1, 1]]"
  by (simp add: fullfact_def fullfact_cols_2_2 upt_0_4 del: fullfact_cols.simps)

lemma Strata_init_2_2:
  "Strata_init (Some [2, 2]) None None None =
     Inr \<lparr>origins = [[0, 0], [1/2, 0], [0, 1/2], [1/2, 1/2]],
          widths = [[1/2, 1/2], [1/2, 1/2], [1/2, 1/2], [1/2, 1/2]],
          weights = [1/4, 1/4, 1/4, 1/4]\<rparr>"
  by (simp add: Strata_init_def fullfact_2_2)

theorem strata_space_filling_witness:
  "\<exists>st0 st. Strata_init (Some [2, 2]) None None None = Inr st0
     \<and> run_splits st0 [(1/10, 0, 0), (9/10, 4, 1)] = Inr st
     \<and> space_fill (widths st) = 1 \<and> weights st = map prod_list (widths st)"
proof -
  define st1 where "st1 = \<lparr>origins = [[0, 0], [1/2, 0], [0, 1/2], [1/2, 1/2], [1/4, 1/4], [1/4, 0::real]],
          widths = [[1/4, 1/2], [1/2, 1/2], [1/2, 1/2], [1/2, 1/2], [1/4, 1/4], [1/4, 1/4::real]],
          weights = [1/8, 1/4, 1/4, 1/4, 1/16, 1/16::real]\<rparr>"
  have h1: "[2, 2::nat] \<noteq> []" and h2: "\<forall>n\<in>set [2, 2::nat]. 0 < n" by simp_all
  from strata_space_filling[OF h1 h2] obtain st0
    where i: "Strata_init (Some [2, 2]) None None None = Inr st0"
      and a: "\<forall>ops st. run_splits st0 ops = Inr st \<longrightarrow>
                 space_fill (widths st) = 1 \<and> weights st = map prod_list (widths st)"
    by blast
  from i have st0: "st0 = \<lparr>origins = [[0, 0], [1/2, 0], [0, 1/2], [1/2, 1/2]],
          widths = [[1/2, 1/2], [1/2, 1/2], [1/2, 1/2], [1/2, 1/2]],
          weights = [1/4, 1/4, 1/4, 1/4]\<rparr>"
    by (simp add: Strata_init_2_2)
  have r: "run_splits st0 [(1/10, 0, 0), (9/10, 4, 1)] = Inr st1"
    unfolding st0 st1_def by (simp add: split_def Let_def)
  from a r have "space_fill (widths st1) = 1 \<and> weights st1 = map prod_list (widths st1)"
    by blast
  with i r show ?thesis by blast
qed

text \<open>
  C3 (amended). Splitting stratum \<open>b\<close> along axis \<open>d\<close> halves the width of both
  resulting boxes along \<open>d\<close> and leaves every other width as it was. Which of the two
  boxes keeps the old origin depends on where the existing sample \<open>u\<close> lies: when \<open>u\<close> is
  in the near half, stratum \<open>b\<close> keeps its origin and the appended stratum starts at
  \<open>origin + width / 2\<close> along \<open>d\<close>; otherwise stratum \<open>b\<close> itself is moved to the far half
  and the appended stratum takes the old origin. Either way the two boxes tile the old one.
\<close>

theorem split_tiles:
  assumes "b < length (widths st)" and "length (origins st) = length (widths st)"
    and "length (weights st) = length (widths st)"
    and "d < length (widths st ! b)" and "length (origins st ! b) = length (widths st ! b)"
  shows "\<exists>st'. split st u b d = Inr st'
     \<and> widths st' ! b = (widths st ! b)[d := widths st ! b ! d / 2]
     \<and> last (widths st') = (widths st ! b)[d := widths st ! b ! d / 2]
     \<and> (if u < origins st ! b ! d + widths st ! b ! d / 2
        then origins st' ! b = origins st ! b
           \<and> last (origins st') = (origins st ! b)[d := origins st ! b ! d + widths st ! b ! d / 2]
        else origins st' ! b = (origins st ! b)[d := origins st ! b ! d + widths st ! b ! d / 2]
           \<and> last (origins st') = origins st ! b)"
  using assms by (simp add: split_def Let_def nth_append last_conv_nth nth_list_update)

theorem split_tiles_witness:
  "\<exists>st'. split \<lparr>origins = [[0]], widths = [[1]], weights = [1]\<rparr> (3/4) 0 0 = Inr st'
     \<and> widths st' ! 0 = [1/2] \<and> last (widths st') = [1/2]
     \<and> origins st' ! 0 = [1/2] \<and> last (origins st') = [0]"
  using split_tiles[of 0 "\<lparr>origins = [[0]], widths = [[1]], weights = [1]\<rparr>" 0 "3/4"]
  by simp

text \<open>
  C3 as stated (the original stratum's origin is unchanged and the appended stratum starts
  at the far half) fails when the existing sample lies in the far half: a unit interval with
  its sample at \<open>3/4\<close>.
\<close>

theorem split_far_half_counterexample:
  "split \<lparr>origins = [[0]], widths = [[1]], weights = [1]\<rparr> (3/4) 0 0
     = Inr \<lparr>origins = [[1/2], [0]], widths = [[1/2], [1/2]], weights = [1/2, 1/2]\<rparr>
   \<and> \<not> ([[1/2], [0::real]] ! 0 = [[0]] ! 0
        \<and> last [[1/2], [0::real]] ! 0 = [[0]] ! 0 ! 0 + [[1]] ! 0 ! 0 / 2)"
  by (simp add: split_def Let_def)

text \<open>
  A file of at least two lines with at least two columns each is read as the
  two-dimensional table of its lines.
\<close>

lemma np_loadtxt_2d:
  assumes "2 \<le> length r" and "rs \<noteq> []" and "list_all (\<lambda>r'. length r' = length r) rs"
  shows "np_loadtxt (r # rs) = Inr (Array2 (r # rs))"
proof -
  have "filter (\<lambda>r'. 0 < length r') rs = rs"
    using assms(1,3) by (induction rs) auto
  moreover have "r \<noteq> []" using assms(1) by auto
  ultimately show ?thesis using assms by (simp add: np_loadtxt_def)
qed

text \<open>
  For a file that \<^verbatim>\<open>np.loadtxt\<close> reads as a two-dimensional table, the construction is fatal
  exactly when the sum over the rows of the product of the widths differs from 1 by more
  than \<open>1e-5\<close>: ``not space-filling'' when the sum is too small, ``over-filling'' when it is
  too large. Within the tolerance the construction succeeds and every weight is the product
  of the stratum's widths.
\<close>

lemma strata_file_check:
  fixes array_tmp :: "real list list"
  assumes "np_loadtxt file_lines = Inr (Array2 array_tmp)"
  defines "ncol \<equiv> (case array_tmp of [] \<Rightarrow> 0 | r # _ \<Rightarrow> length r)"
  defines "wid \<equiv> map (drop (ncol div 2)) array_tmp"
  shows "((\<exists>e. Strata_init None (Some file_lines) origins0 widths0 = Inl e)
            \<longleftrightarrow> \<bar>space_fill wid - 1\<bar> > 1 / 10 ^ 5)
     \<and> (space_fill wid < 1 - 1 / 10 ^ 5 \<longrightarrow>
          Strata_init None (Some file_lines) origins0 widths0
            = Inl (SysExit ''Error: The stratum design is not space-filling.''))
     \<and> (space_fill wid > 1 + 1 / 10 ^ 5 \<longrightarrow>
          Strata_init None (Some file_lines) origins0 widths0
            = Inl (SysExit ''Error: The stratum design is over-filling.''))
     \<and> (\<bar>space_fill wid - 1\<bar> \<le> 1 / 10 ^ 5 \<longrightarrow>
          Strata_init None (Some file_lines) origins0 widths0
            = Inr \<lparr>origins = map (take (ncol div 2)) array_tmp, widths = wid,
                   weights = map prod_list wid\<rparr>)"
proof -
  have eq: "Strata_init None (Some file_lines) origins0 widths0 =
     (if 1 - space_fill wid > 1 / 10 ^ 5
      then Inl (SysExit ''Error: The stratum design is not space-filling.'')
      else if 1 - space_fill wid < - (1 / 10 ^ 5)
      then Inl (SysExit ''Error: The stratum design is over-filling.'')
      else Inr \<lparr>origins = map (take (ncol div 2)) array_tmp, widths = wid,
                weights = map prod_list wid\<rparr>)"
    by (simp add: Strata_init_def assms(1) Let_def wid_def ncol_def)
  show ?thesis unfolding eq by (auto simp: abs_if)
qed

lemma strata_file_check_examples:
  "Strata_init None (Some [[0, 1/2], [1/2, 1/2]]) None None
     = Inr \<lparr>origins = [[0], [1/2]], widths = [[1/2], [1/2]], weights = [1/2, 1/2]\<rparr>
   \<and> Strata_init None (Some [[0, 1/2], [1/2, 1/4]]) None None
     = Inl (SysExit ''Error: The stratum design is not space-filling.'')
   \<and> Strata_init None (Some [[0, 1/2], [1/2, 3/4]]) None None
     = Inl (SysExit ''Error: The stratum design is over-filling.'')"
  by (simp add: Strata_init_def np_loadtxt_def space_fill_def)

text \<open>
  A file of one line is read as a one-dimensional array, which has no \<^verbatim>\<open>shape[1]\<close>: the
  construction raises \<open>IndexError\<close> before the volumes are looked at.
\<close>

lemma strata_file_one_line:
  "Strata_init None (Some [r]) origins0 widths0 = Inl IndexError"
  by (cases r) (simp_all add: Strata_init_def np_loadtxt_def)

text \<open>
  C8. Construction from a persisted table is fatal not only when the volumes miss 1 by
  more than \<open>1e-5\<close>. The design of one stratum that covers the unit interval, the file of the
  single line \<^verbatim>\<open>0 1\<close> (origin 0, width 1), has volume exactly 1, and the construction
  raises \<open>IndexError\<close> instead of returning the stratum with its weight.
\<close>

theorem strata_file_single_stratum:
  "Strata_init None (Some [[0, 1]]) None None = Inl IndexError
   \<and> space_fill (map (drop 1) [[0, 1]]) = 1"
  by (simp add: Strata_init_def np_loadtxt_def space_fill_def)

section \<open>Target densities and importance sampling: proofs\<close>

lemma floor_pos: "(0::real) < 1 / 10 ^ n"
  by simp

lemma np_log_max: "0 < e \<Longrightarrow> np_log (max v e) = Finite (ln (max v e))"
  by (simp add: np_log_def less_max_iff_disj)

lemma ln_le_ln_max: "0 < e \<Longrightarrow> ln e \<le> ln (max v (e::real))"
  by (subst ln_le_cancel_iff) (simp_all add: less_max_iff_disj)

lemma max_zero_pos: "0 < e \<Longrightarrow> max 0 e = (e::real)"
  by simp

lemma py_max_scalar: "py_max (Scalar v) e = Inr (Scalar (max v e))"
  by (simp add: max_def)

lemma compute_log_pdf_scalar:
  "compute_log_pdf x params (\<lambda>x params. Scalar (pdf x params))
     = Inr (LogScalar (Finite (ln (max (pdf x params) (1 / 10 ^ 320)))))"
  unfolding compute_log_pdf_def py_max_scalar sum.case np_log_val_def npval.case
  by (simp only: np_log_max[OF floor_pos])

lemma compute_log_pdf_array:
  "pdf_func x params = Array (v # w # vs) \<Longrightarrow> compute_log_pdf x params pdf_func = Inl ValueError"
  unfolding compute_log_pdf_def by (simp only: py_max.simps sum.case)

lemma ln_inverse_power10: "ln (1 / 10 ^ n :: real) = - (real n * ln 10)"
  by (simp add: ln_div ln_realpow)

lemma ln_floor: "ln (1 / 10 ^ 320 :: real) = - (320 * ln 10)"
  using ln_inverse_power10[of 320] by (simp only: of_nat_numeral)

text \<open>
  In MCMC the target is called on one point and a density returns one number. For every
  algorithm a pdf-style callable is resolved to \<^verbatim>\<open>compute_log_pdf\<close>, whose value is
  \<open>log (max (pdf x params) 1e-320)\<close>: a finite number, never below
  \<open>log 1e-320 = -320 log 10\<close>, which is its value where the density is zero.
\<close>

lemma mcmc_pdf_target_floor:
  "init_mcmc_target D alg d Absent (Callable k (\<lambda>x params. Scalar (pdf x params)))
        = Inr (Joint (\<lambda>x params. compute_log_pdf x params (\<lambda>x params. Scalar (pdf x params))))
   \<and> compute_log_pdf x params (\<lambda>x params. Scalar (pdf x params))
        = Inr (LogScalar (Finite (ln (max (pdf x params) (1 / 10 ^ 320)))))
   \<and> - (320 * ln 10) \<le> ln (max (pdf x params) (1 / 10 ^ 320))
   \<and> compute_log_pdf x params (\<lambda>x params. Scalar 0) = Inr (LogScalar (Finite (- (320 * ln 10))))"
proof -
  have m: "init_mcmc_target D alg d Absent (Callable k (\<lambda>x params. Scalar (pdf x params)))
        = Inr (Joint (\<lambda>x params. compute_log_pdf x params (\<lambda>x params. Scalar (pdf x params))))"
    by (cases alg) (simp_all add: init_mcmc_target_def)
  have c: "compute_log_pdf x params (\<lambda>x params. Scalar (pdf x params))
        = Inr (LogScalar (Finite (ln (max (pdf x params) (1 / 10 ^ 320)))))"
    by (rule compute_log_pdf_scalar)
  have "ln (1 / 10 ^ 320) \<le> ln (max (pdf x params) (1 / 10 ^ 320))"
    by (rule ln_le_ln_max) (rule floor_pos)
  then have lb: "- (320 * ln 10) \<le> ln (max (pdf x params) (1 / 10 ^ 320))"
    by (simp only: ln_floor)
  have "compute_log_pdf x params (\<lambda>x params. Scalar 0)
          = Inr (LogScalar (Finite (ln (max 0 (1 / 10 ^ 320)))))"
    by (rule compute_log_pdf_scalar[where pdf = "\<lambda>x params. 0"])
  then have z: "compute_log_pdf x params (\<lambda>x params. Scalar 0)
          = Inr (LogScalar (Finite (- (320 * ln 10))))"
    by (simp only: max_zero_pos[OF floor_pos] ln_floor)
  show ?thesis by (intro conjI m c lb z)
qed

text \<open>Importance sampling resolves a pdf-style callable of two parameters to the same helper.\<close>

lemma init_is_target_pdf:
  "init_is_target D pdf_target_params Absent (Callable 2 pdf_func)
        = Inr (\<lambda>x params. compute_log_pdf x params pdf_func)"
  by (simp add: init_is_target_def)

text \<open>
  C5. In importance sampling the resolved log-target is called once on the whole sample
  array. For a density that returns one value per sample (here the density of the uniform
  distribution on \<open>[0, 1]\<close>, which is zero at both samples 2 and 3), the helper does not
  return \<open>log (max (pdf x params) 1e-320)\<close>: the built-in \<^verbatim>\<open>max\<close> raises \<open>ValueError\<close> on an
  array of two or more values.
\<close>

theorem is_pdf_target_raises:
  "init_is_target D pdf_target_params Absent
       (Callable 2 (\<lambda>x params. Array (map (\<lambda>s. if 0 \<le> hd s \<and> hd s \<le> 1 then 1 else 0) x)))
     = Inr (\<lambda>x params. compute_log_pdf x params
              (\<lambda>x params. Array (map (\<lambda>s. if 0 \<le> hd s \<and> hd s \<le> 1 then 1 else 0) x)))
   \<and> compute_log_pdf [[2], [3]] pdf_target_params
        (\<lambda>x params. Array (map (\<lambda>s. if 0 \<le> hd s \<and> hd s \<le> (1::real) then 1 else 0) x))
     = Inl ValueError"
proof -
  have "map (\<lambda>s. if 0 \<le> hd s \<and> hd s \<le> (1::real) then 1 else 0) [[2], [3]] = [0, 0::real]"
    by simp
  then have "compute_log_pdf [[2], [3]] pdf_target_params
        (\<lambda>x params. Array (map (\<lambda>s. if 0 \<le> hd s \<and> hd s \<le> (1::real) then 1 else 0) x))
     = Inl ValueError"
    by (intro compute_log_pdf_array) simp
  then show ?thesis by (simp only: init_is_target_pdf simp_thms)
qed

text \<open>
  The calls \<^verbatim>\<open>Distribution(name=..., copula=...)\<close> of importance sampling raise \<open>TypeError\<close>,
  since the constructor's keyword is \<^verbatim>\<open>dist_name\<close>: a named target stops \<^verbatim>\<open>init_is\<close>, and
  the sampling step and the weighting step stop at their first line on every input. So
  no construction of an importance sampler returns.
\<close>

lemma Distribution_new_name: "Distribution_new [''name'', ''copula''] = Inl TypeError"
  by (simp add: Distribution_new_def)

lemma init_is_target_named:
  "init_is_target D pdf_target_params Absent (Name n) = Inl TypeError"
  by (simp add: init_is_target_def Distribution_new_name)

lemma sampling_step_raises: "sampling_step rvs self = Inl TypeError"
  by (simp add: sampling_step_def Distribution_new_name)

lemma weighting_step_raises:
  "weighting_step proposal_log_pdf log_target self x = Inl TypeError"
  by (simp add: weighting_step_def Distribution_new_name)

lemma IS_init_raises: "\<exists>e. IS_init D rvs proposal_log_pdf self = Inl e"
  by (cases "init_is D self") (auto simp: IS_init_def sampling_step_raises)

text \<open>
  The arithmetic that follows the constructor call in the weighting step: for as many
  finite log-densities of the target as of the proposal, and at least one, the returned
  weights are the exponentials of the log-weights \<open>log p - log q\<close> divided by their total;
  they are non-negative and sum to 1.
\<close>

lemma normalize_weights_normalized:
  assumes "length log_ps = length log_qs" and "log_ps \<noteq> []"
  shows "\<exists>weights'. normalize_weights log_ps log_qs
               = Inr (map2 (\<lambda>p q. p - q) log_ps log_qs, weights')
       \<and> weights' = map (\<lambda>l. exp l / (\<Sum>l'\<leftarrow>map2 (\<lambda>p q. p - q) log_ps log_qs. exp l'))
                        (map2 (\<lambda>p q. p - q) log_ps log_qs)
       \<and> (\<forall>w\<in>set weights'. 0 \<le> w)
       \<and> sum_list weights' = 1"
proof -
  define lw where "lw = map2 (\<lambda>p q. p - q) log_ps log_qs"
  let ?S = "\<Sum>l'\<leftarrow>lw. exp l'"
  have ne: "lw \<noteq> []" using assms by (cases log_ps; cases log_qs) (auto simp: lw_def)
  have r: "normalize_weights log_ps log_qs = Inr (lw, map (\<lambda>l. exp l / ?S) lw)"
    using assms(1) by (simp add: normalize_weights_def Let_def lw_def o_def)
  have nn0: "0 \<le> (\<Sum>l'\<leftarrow>ys. exp l')" for ys :: "real list"
    by (rule sum_list_nonneg) auto
  obtain a ys where x: "lw = a # ys" using ne by (cases lw) auto
  have pos: "0 < ?S" unfolding x using nn0[of ys] by (simp add: add_pos_nonneg)
  have nn: "\<forall>w\<in>set (map (\<lambda>l. exp l / ?S) lw). 0 \<le> w" using pos by auto
  have "sum_list (map (\<lambda>l. exp l / ?S) lw) = ?S / ?S"
    by (simp add: divide_inverse sum_list_mult_const)
  then have one: "sum_list (map (\<lambda>l. exp l / ?S) lw) = 1" using pos by simp
  show ?thesis using r nn one unfolding lw_def by blast
qed

text \<open>
  C6. An importance sampling run does not return normalized weights: with a uniform
  proposal on \<open>[0, 1]\<close>, two samples and the log-density \<open>-x\<^sup>2 / 2\<close> as target, the
  construction raises \<open>TypeError\<close> whatever the distribution library returns, and so does
  the weighting step called on the samples \<open>1/4\<close> and \<open>3/4\<close>.
\<close>

theorem importance_sampling_raises:
  "IS_init D rvs proposal_log_pdf
     \<lparr>is_dimension = Some 1, is_nsamples_arg = Some 2,
      pdf_proposal = Name ''Uniform'', pdf_proposal_params = [0, 1::real],
      is_pdf_target = Absent,
      is_log_pdf_target =
        Callable 2 (\<lambda>x params. Inr (LogArray (map (\<lambda>s. Finite (- (hd s)\<^sup>2 / 2)) x))),
      is_pdf_target_params = ()\<rparr> = Inl TypeError
   \<and> weighting_step proposal_log_pdf
       (\<lambda>x params. Inr (LogArray (map (\<lambda>s. Finite (- (hd s)\<^sup>2 / 2)) x)))
       \<lparr>is_dimension = Some 1, is_nsamples_arg = Some 2,
        pdf_proposal = Name ''Uniform'', pdf_proposal_params = [0, 1::real],
        is_pdf_target = Absent,
        is_log_pdf_target =
          Callable 2 (\<lambda>x params. Inr (LogArray (map (\<lambda>s. Finite (- (hd s)\<^sup>2 / 2)) x))),
        is_pdf_target_params = ()\<rparr> [[1/4], [3/4]] = Inl TypeError"
  by (simp add: IS_init_def init_is_def init_is_target_def sampling_step_def
      weighting_step_def Distribution_new_def)

text \<open>Resampling: the index list of \<^verbatim>\<open>IS.resample\<close>.\<close>

lemma resample_idx:
  "concat (map (\<lambda>j. if c ! j > 0 then replicate (c ! j) j else []) js)
     = concat (map (\<lambda>j. replicate (c ! j) j) js)"
  by (induction js) simp_all

lemma resample_idx_bound:
  "i \<in> set (concat (map (\<lambda>j. replicate (c ! j) j) [0..<n])) \<Longrightarrow> i < n"
  by auto

text \<open>
  C10. With method \<open>multinomial\<close> and a size (the number of samples when omitted),
  resampling returns exactly that many points, each of them a row of the sample array, row
  \<open>j\<close> repeated as often as the single multinomial draw over the weights says. The draw is
  taken with the contract of \<^verbatim>\<open>np.random.multinomial\<close>: one count per weight, summing to
  the size.
\<close>

theorem resample_multinomial:
  fixes self :: "'x importance_sampler"
  defines "sz \<equiv> \<lambda>size0. (case size0 of None \<Rightarrow> is_nsamples self | Some n \<Rightarrow> n)"
  assumes "length (is_samples self) = is_nsamples self"
    and "length (multinomial (sz size0) (is_weights self)) = is_nsamples self"
    and "sum_list (multinomial (sz size0) (is_weights self)) = sz size0"
  shows "\<exists>out. resample self ''multinomial'' size0 multinomial = Inr out
     \<and> length out = sz size0
     \<and> set out \<subseteq> set (is_samples self)
     \<and> out = concat (map (\<lambda>j. replicate (multinomial (sz size0) (is_weights self) ! j)
                                        (is_samples self ! j)) [0..<is_nsamples self])"
proof -
  let ?c = "multinomial (sz size0) (is_weights self)"
  let ?n = "is_nsamples self"
  let ?idx = "concat (map (\<lambda>j. replicate (?c ! j) j) [0..<?n])"
  let ?out = "map (\<lambda>i. is_samples self ! i) ?idx"
  have inb: "\<forall>i\<in>set ?idx. i < length (is_samples self)"
    using resample_idx_bound[of _ ?c ?n] assms(2) by auto
  have r: "resample self ''multinomial'' size0 multinomial = Inr ?out"
    using assms(3) inb
    by (simp add: resample_def Let_def sz_def resample_idx del: set_concat) (auto simp: not_le)
  have o: "?out = concat (map (\<lambda>j. replicate (?c ! j) (is_samples self ! j)) [0..<?n])"
    by (simp add: map_concat o_def)
  have "length ?out = sum_list (map (\<lambda>j. ?c ! j) [0..<length ?c])"
    by (simp add: length_concat o_def assms(3))
  also have "\<dots> = sum_list ?c" by (simp add: map_nth)
  finally have l: "length ?out = sz size0" using assms(4) by simp
  have s: "set ?out \<subseteq> set (is_samples self)" using inb by auto
  from r l s o show ?thesis by simp
qed

theorem resample_multinomial_witness:
  "resample \<lparr>is_nsamples = 2, is_samples = [10::int, 20], is_weights = [1/4, 3/4]\<rparr>
      ''multinomial'' (Some 3) (\<lambda>n p. [1, 2]) = Inr [10, 20, 20]"
  using resample_multinomial[of "\<lparr>is_nsamples = 2, is_samples = [10::int, 20], is_weights = [1/4, 3/4]\<rparr>"
      "\<lambda>n p. [1, 2]" "Some 3"]
  by (simp add: upt_conv_Cons numeral_2_eq_2)


section \<open>Markov chain Monte Carlo: proofs\<close>

lemma accept_uphill:
  "0 < u \<Longrightarrow> u < 1 \<Longrightarrow> 0 \<le> a \<Longrightarrow> logval_less (np_log u) (Finite a)"
proof -
  assume u: "0 < u" "u < 1" and a: "0 \<le> a"
  then have "ln u < 0" by simp
  with a have "ln u < a" by linarith
  with u show ?thesis by (simp add: np_log_def)
qed

lemma py_range_0_2_1: "py_range 0 (Suc (Suc 0)) (Suc 0) = [0, Suc 0]"
  by (simp add: py_range_def upt_conv_Cons)

text \<open>
  Counting acceptances: an MH iteration adds at most one, an MMH iteration at most one per
  coordinate. So the ratio that a run of MH reports lies between 0 and 1, the ratio that a
  run of MMH reports lies between 0 and the dimension, and both return one row per
  requested sample.
\<close>

lemma fold_count_bound:
  fixes count :: "'s \<Rightarrow> nat"
  assumes "\<And>i st. count st \<le> count (f i st) \<and> count (f i st) \<le> count st + c"
  shows "count st \<le> count (fold f xs st) \<and> count (fold f xs st) \<le> count st + c * length xs"
proof (induction xs arbitrary: st)
  case Nil
  then show ?case by simp
next
  case (Cons x xs)
  have a: "count st \<le> count (f x st)" and b: "count (f x st) \<le> count st + c"
    using assms[of st x] by simp_all
  from Cons.IH[of "f x st"] a b show ?case by (simp add: algebra_simps)
qed

lemma mh_step_count:
  "snd (snd st) \<le> snd (snd (mh_step self rnd i st))
   \<and> snd (snd (mh_step self rnd i st)) \<le> snd (snd st) + 1"
  by (cases st) (simp add: mh_step_def Let_def)

lemma mmh_coordinate_count:
  "snd (snd (snd st)) \<le> snd (snd (snd (mmh_coordinate self rnd i prev j st)))
   \<and> snd (snd (snd (mmh_coordinate self rnd i prev j st))) \<le> snd (snd (snd st)) + 1"
  by (cases st) (simp add: mmh_coordinate_def Let_def)

lemma mmh_step_count:
  "snd st \<le> snd (mmh_step self rnd i st)
   \<and> snd (mmh_step self rnd i st) \<le> snd st + dimension self"
proof -
  obtain samples n where st: "st = (samples, n)" by (cases st)
  let ?init = "(samples ! i, samples ! i, log_pdf_target self (samples ! i), n)"
  have "snd (snd (snd ?init))
          \<le> snd (snd (snd (fold (mmh_coordinate self rnd i (samples ! i)) [0..<dimension self] ?init)))
      \<and> snd (snd (snd (fold (mmh_coordinate self rnd i (samples ! i)) [0..<dimension self] ?init)))
          \<le> snd (snd (snd ?init)) + 1 * length [0..<dimension self]"
    by (rule fold_count_bound) (rule mmh_coordinate_count)
  then show ?thesis
    by (simp add: st mmh_step_def Let_def split_beta)
qed

lemma py_range_length: "0 < step \<Longrightarrow> length (py_range start (n * step + start) step) = n"
proof -
  assume s: "0 < step"
  have e: "n * step + start - start + step - 1 = (step - 1) + n * step" using s by simp
  have "(step - 1 + n * step) div step = n + (step - 1) div step"
    by (rule div_mult_self1) (use s in simp)
  moreover have "(step - 1) div step = 0" by (rule div_less) (use s in simp)
  ultimately have d: "((step - 1) + n * step) div step = n" by (simp only: add_0_right)
  have "length (py_range start (n * step + start) step)
          = (n * step + start - start + step - 1) div step"
    unfolding py_range_def by (simp only: length_map length_upt diff_zero)
  then show ?thesis by (simp only: e d)
qed

lemma mh_fold_accepts:
  "snd (snd (fold (mh_step self rnd) [0..<n] (s, l, 0))) \<le> n"
  using fold_count_bound[of "\<lambda>st. snd (snd st)" "mh_step self rnd" 1 "(s, l, 0)" "[0..<n]"]
    mh_step_count[of _ self rnd] by simp

lemma mmh_fold_accepts:
  "snd (fold (mmh_step self rnd) [0..<n] (s, 0)) \<le> dimension self * n"
  using fold_count_bound[of snd "mmh_step self rnd" "dimension self" "(s, 0)" "[0..<n]"]
    mmh_step_count[of _ self rnd] by simp

lemma ratio_bounds:
  "k \<le> c * n \<Longrightarrow> n \<noteq> 0 \<Longrightarrow> 0 \<le> real k / real n \<and> real k / real n \<le> real c"
proof -
  assume k: "k \<le> c * n" and n: "n \<noteq> 0"
  from k have "real k \<le> real c * real n" by (simp flip: of_nat_mult)
  then show ?thesis using n by (simp add: pos_divide_le_eq)
qed

lemma run_mcmc_mh_bounds:
  assumes "algorithm self = MH" and "run_mcmc self rnd = Inr (out, r)"
  shows "0 \<le> r \<and> r \<le> 1 \<and> length out = nsamples self"
proof -
  define n where "n = nsamples self * jump self + nburn self - 1"
  have "\<exists>s l. r = real (snd (snd (fold (mh_step self rnd) [0..<n] (s, l, 0)))) / real n
          \<and> n \<noteq> 0 \<and> 0 < jump self
          \<and> length out = length (py_range (nburn self)
                (nsamples self * jump self + nburn self) (jump self))"
    using assms unfolding run_mcmc_def Let_def n_def[symmetric]
    by (auto simp: split_beta split: if_splits sum.splits)
  then obtain s l where
    r: "r = real (snd (snd (fold (mh_step self rnd) [0..<n] (s, l, 0)))) / real n"
    and n0: "n \<noteq> 0" and j0: "0 < jump self"
    and o: "length out = length (py_range (nburn self)
                (nsamples self * jump self + nburn self) (jump self))"
    by blast
  have "snd (snd (fold (mh_step self rnd) [0..<n] (s, l, 0))) \<le> 1 * n"
    using mh_fold_accepts[of self rnd n s l] by simp
  from ratio_bounds[OF this n0] have "0 \<le> r \<and> r \<le> 1" unfolding r by simp
  moreover have "length out = nsamples self"
    unfolding o using j0 by (rule py_range_length)
  ultimately show ?thesis by simp
qed

lemma run_mcmc_mmh_bounds:
  assumes "algorithm self = MMH" and "run_mcmc self rnd = Inr (out, r)"
  shows "0 \<le> r \<and> r \<le> real (dimension self) \<and> length out = nsamples self"
proof -
  define n where "n = nsamples self * jump self + nburn self - 1"
  have "\<exists>s. r = real (snd (fold (mmh_step self rnd) [0..<n] (s, 0))) / real n
          \<and> n \<noteq> 0 \<and> 0 < jump self
          \<and> length out = length (py_range (nburn self)
                (nsamples self * jump self + nburn self) (jump self))"
    using assms unfolding run_mcmc_def Let_def n_def[symmetric]
    by (auto simp: split_beta split: if_splits sum.splits)
  then obtain s where
    r: "r = real (snd (fold (mmh_step self rnd) [0..<n] (s, 0))) / real n"
    and n0: "n \<noteq> 0" and j0: "0 < jump self"
    and o: "length out = length (py_range (nburn self)
                (nsamples self * jump self + nburn self) (jump self))"
    by blast
  from ratio_bounds[OF mmh_fold_accepts[of self rnd n s] n0]
  have "0 \<le> r \<and> r \<le> real (dimension self)" unfolding r .
  moreover have "length out = nsamples self"
    unfolding o using j0 by (rule py_range_length)
  ultimately show ?thesis by simp
qed

text \<open>
  C1. The acceptance ratio of MMH counts one acceptance per accepted coordinate but divides
  by the number of iterations, so in dimension 2 it can exceed 1: a chain of two samples
  on a standard normal target, started at \<open>(1, 1)\<close>, whose single iteration moves both
  coordinates to 0 and accepts both, reports the ratio 2.
\<close>

theorem mmh_accept_ratio_two:
  "run_mcmc
     \<lparr>dimension = 2, pdf_proposal_type = [Normal, Normal], pdf_proposal_scale = [1, 1],
      log_pdf_target = (\<lambda>x. - (sum_list (map (\<lambda>v. v * v) x)) / 2), algorithm = MMH,
      jump = 1, nsamples = 2, seed = Point [1, 1], nburn = 0\<rparr>
     \<lparr>noise = (\<lambda>i j. - 1), accept_u = (\<lambda>i j. 1 / 2), choice = (\<lambda>i. 0),
      stretch_u = (\<lambda>i. 0)\<rparr>
   = Inr ([[1, 1], [0, 0]], 2)"
  by (simp add: run_mcmc_def broadcast_seed_def mmh_step_def mmh_coordinate_def
        py_range_0_2_1 accept_uphill upt_conv_Cons numeral_2_eq_2 Let_def)

lemma take_drop_nth:
  "m + n \<le> length xs \<Longrightarrow> take n (drop m xs) = map (\<lambda>k. xs ! k) [m..<m + n]"
  by (rule nth_equalityI) simp_all

lemma complementary_ensemble_nth:
  assumes "1 \<le> M" and "M \<le> i + 1" and "i < length samples"
  shows "complementary_ensemble samples i M = map (\<lambda>k. samples ! k) [i + 2 - M..<i + 1]"
proof -
  have n: "i + 2 - M + (i + 1 - (i + 2 - M)) = i + 1" using assms by arith
  have "take (i + 1 - (i + 2 - M)) (drop (i + 2 - M) samples)
          = map (\<lambda>k. samples ! k) [i + 2 - M..<i + 2 - M + (i + 1 - (i + 2 - M))]"
    using assms n by (intro take_drop_nth) simp
  then show ?thesis by (simp only: complementary_ensemble_def n)
qed

lemma stretch_factor_pos:
  assumes "0 < a" and "0 \<le> u" and "u < 1"
  shows "0 < stretch_factor a u"
proof -
  have "- u \<le> (a - 1) * u"
    using assms by (simp add: algebra_simps mult_nonneg_nonneg)
  then have "0 < 1 + (a - 1) * u" using assms by linarith
  then show ?thesis using assms by (simp add: stretch_factor_def)
qed

lemma stretch_accept_iff:
  assumes "0 < s" and "1 \<le> d" and "0 \<le> u" and "u < 1"
  shows "stretch_accept d s lpc lcur u \<longleftrightarrow> u < min 1 (s ^ (d - 1) * exp (lpc - lcur))"
proof -
  have pi: "power_int s (int d - 1) = s ^ (d - 1)"
    using assms(2) by (simp add: power_int_def nat_diff_distrib')
  have P: "0 < s ^ (d - 1)" using assms(1) by simp
  have r: "logval_add (np_log (power_int s (int d - 1))) (lpc - lcur)
             = Finite (ln (s ^ (d - 1)) + (lpc - lcur))"
    using P by (simp add: pi np_log_def)
  have e: "exp (ln (s ^ (d - 1)) + (lpc - lcur)) = s ^ (d - 1) * exp (lpc - lcur)"
    using P by (simp add: exp_add)
  show ?thesis
  proof (cases "u = 0")
    case True
    then show ?thesis using P unfolding stretch_accept_def r by (simp add: np_log_def)
  next
    case False
    with assms(3) have u: "0 < u" by simp
    have "ln u < ln (s ^ (d - 1)) + (lpc - lcur)
            \<longleftrightarrow> exp (ln u) < exp (ln (s ^ (d - 1)) + (lpc - lcur))"
      by simp
    also have "\<dots> \<longleftrightarrow> u < s ^ (d - 1) * exp (lpc - lcur)"
      using u by (simp only: e exp_ln)
    finally show ?thesis using u assms(4) unfolding stretch_accept_def r
      by (simp add: np_log_def)
  qed
qed

text \<open>
  C4. In a stretch step at index \<open>i\<close> with ensemble size \<open>M\<close>, the companion \<open>s0\<close> is one of
  the \<open>M - 1\<close> most recent rows of the chain, which are the current states of the other
  walkers: its index lies strictly above \<open>i + 1 - M\<close>, the index of the walker being
  updated. The stretch factor is \<open>Z = ((a - 1) U + 1)\<^sup>2 / a\<close>, the candidate is
  \<open>s0 + Z (walker - s0)\<close>, and the step accepts exactly when the uniform variate of the
  test is below \<open>min 1 (Z ^ (d - 1) * exp (log_p candidate - log_p walker))\<close>, that is with
  that probability.
\<close>

theorem stretch_move:
  fixes self :: mcmc and rnd :: draws and samples :: "real list list" and i M :: nat
  defines "a \<equiv> pdf_proposal_scale self ! 0"
  defines "s0 \<equiv> complementary_ensemble samples i M ! choice rnd i"
  defines "Z \<equiv> stretch_factor a (stretch_u rnd i)"
  defines "candidate \<equiv> stretch_candidate s0 Z (samples ! (i + 1 - M))"
  assumes "2 \<le> M" and "M \<le> i + 1" and "i < length samples"
    and "0 < a" and "0 \<le> stretch_u rnd i" and "stretch_u rnd i < 1"
    and "1 \<le> dimension self" and "0 \<le> accept_u rnd i 0" and "accept_u rnd i 0 < 1"
    and "choice rnd i < M - 1"
  shows "length (complementary_ensemble samples i M) = M - 1
     \<and> s0 = samples ! (i + 2 - M + choice rnd i)
     \<and> i + 1 - M < i + 2 - M + choice rnd i \<and> i + 2 - M + choice rnd i \<le> i
     \<and> Z = ((a - 1) * stretch_u rnd i + 1) ^ 2 / a
     \<and> candidate = map2 (\<lambda>c w. c + Z * (w - c)) s0 (samples ! (i + 1 - M))
     \<and> stretch_step self rnd M i (samples, lps, n)
         = (if accept_u rnd i 0
                < min 1 (Z ^ (dimension self - 1)
                          * exp (log_pdf_target self candidate - lps ! (i + 1 - M)))
            then (samples[i + 1 := candidate], lps @ [log_pdf_target self candidate], n + 1)
            else (samples[i + 1 := samples ! (i + 1 - M)], lps @ [lps ! (i + 1 - M)], n))"
proof -
  have c: "complementary_ensemble samples i M = map (\<lambda>k. samples ! k) [i + 2 - M..<i + 1]"
    using assms(5,6,7) by (intro complementary_ensemble_nth) simp_all
  have l: "length (complementary_ensemble samples i M) = M - 1"
    unfolding c by (simp only: length_map length_upt) (use assms(5,6) in arith)
  have kb: "i + 2 - M + choice rnd i < i + 1" using assms(5,6,14) by arith
  have cl: "choice rnd i < length [i + 2 - M..<i + 1]"
    using kb by (simp only: length_upt)
  have s: "s0 = samples ! (i + 2 - M + choice rnd i)"
    unfolding s0_def c by (simp only: nth_map[OF cl] nth_upt[OF kb])
  have lo: "i + 1 - M < i + 2 - M + choice rnd i" using assms(5,6) by arith
  have hi: "i + 2 - M + choice rnd i \<le> i" using kb by arith
  have f: "Z = ((a - 1) * stretch_u rnd i + 1) ^ 2 / a"
    by (simp add: Z_def stretch_factor_def add.commute)
  have k: "candidate = map2 (\<lambda>c w. c + Z * (w - c)) s0 (samples ! (i + 1 - M))"
    by (simp add: candidate_def stretch_candidate_def)
  have Zpos: "0 < Z" unfolding Z_def using assms(8,9,10) by (rule stretch_factor_pos)
  have p: "stretch_accept (dimension self) Z (log_pdf_target self candidate)
             (lps ! (i + 1 - M)) (accept_u rnd i 0)
          \<longleftrightarrow> accept_u rnd i 0
                < min 1 (Z ^ (dimension self - 1)
                          * exp (log_pdf_target self candidate - lps ! (i + 1 - M)))"
    using Zpos assms(11,12,13) by (rule stretch_accept_iff)
  have st: "stretch_step self rnd M i (samples, lps, n)
         = (if stretch_accept (dimension self) Z (log_pdf_target self candidate)
                 (lps ! (i + 1 - M)) (accept_u rnd i 0)
            then (samples[i + 1 := candidate], lps @ [log_pdf_target self candidate], n + 1)
            else (samples[i + 1 := samples ! (i + 1 - M)], lps @ [lps ! (i + 1 - M)], n))"
    by (simp add: stretch_step_def Let_def candidate_def Z_def s0_def a_def)
  show ?thesis unfolding st p by (intro conjI l s lo hi f k refl)
qed

theorem stretch_move_witness:
  "stretch_step
     \<lparr>dimension = 1, pdf_proposal_type = [Uniform], pdf_proposal_scale = [2],
      log_pdf_target = (\<lambda>x. 0), algorithm = Stretch, jump = 1, nsamples = 4,
      seed = Ensemble [[0], [1], [2]], nburn = 0\<rparr>
     \<lparr>noise = (\<lambda>i j. 0), accept_u = (\<lambda>i j. 1 / 4), choice = (\<lambda>i. 0),
      stretch_u = (\<lambda>i. 1 / 2)\<rparr>
     3 2 ([[0], [1], [2], [0]], [0, 0, 0], 0)
   = ([[0], [1], [2], [- (1 / 8)]], [0, 0, 0, 0], 1)"
  using stretch_move[of 3 2 "[[0], [1], [2], [0]]"
     "\<lparr>dimension = 1, pdf_proposal_type = [Uniform], pdf_proposal_scale = [2],
      log_pdf_target = (\<lambda>x. 0), algorithm = Stretch, jump = 1, nsamples = 4,
      seed = Ensemble [[0], [1], [2]], nburn = 0\<rparr>"
     "\<lparr>noise = (\<lambda>i j. 0), accept_u = (\<lambda>i j. 1 / 4), choice = (\<lambda>i. 0),
      stretch_u = (\<lambda>i. 1 / 2)\<rparr>" "[0, 0, 0]" 0]
  by (simp add: stretch_factor_def stretch_candidate_def complementary_ensemble_def
        power2_eq_square)


section \<open>Kriging surrogate: proofs\<close>

lemma map_times_one: "map ((*) (1::real)) xs = xs"
  by (induction xs) simp_all

lemma inflate_params_steps:
  assumes "\<forall>j<k. det_r (map (\<lambda>t. (15 / 10) ^ j * t) params) < 1 / 10 ^ 12"
    and "\<not> det_r (map (\<lambda>t. (15 / 10) ^ k * t) params) < 1 / 10 ^ 12"
  shows "inflate_params det_r params = Some (map (\<lambda>t. (15 / 10) ^ k * t) params)"
  using assms
proof (induction k arbitrary: params)
  case 0
  then show ?case by (subst inflate_params.simps) (simp add: map_times_one)
next
  case (Suc k)
  let ?p = "map (\<lambda>t. 15 / 10 * t) params"
  have sh: "map (\<lambda>t. (15 / 10) ^ j * t) ?p = map (\<lambda>t. (15 / 10) ^ Suc j * t) params" for j
    by (simp add: mult.assoc)
  from Suc.prems(1) have "det_r (map (\<lambda>t. (15 / 10) ^ 0 * t) params) < 1 / 10 ^ 12"
    by blast
  then have first: "det_r params < 1 / 10 ^ 12" by (simp add: map_times_one)
  have a: "\<forall>j<k. det_r (map (\<lambda>t. (15 / 10) ^ j * t) ?p) < 1 / 10 ^ 12"
    using Suc.prems(1) unfolding sh by auto
  have b: "\<not> det_r (map (\<lambda>t. (15 / 10) ^ k * t) ?p) < 1 / 10 ^ 12"
    using Suc.prems(2) unfolding sh .
  have "inflate_params det_r params = inflate_params det_r ?p"
    using first by (subst inflate_params.simps) simp
  also have "\<dots> = Some (map (\<lambda>t. (15 / 10) ^ k * t) ?p)" by (rule Suc.IH[OF a b])
  finally show ?case unfolding sh .
qed

text \<open>
  C9. The guard before the optimization multiplies the hyperparameters by 1.5 for as long
  as the determinant of the correlation matrix is below \<open>1e-12\<close>: when the determinant first
  reaches \<open>1e-12\<close> after \<open>k\<close> multiplications, the guard ends with the parameters scaled by
  \<open>1.5 ^ k\<close> and the optimization starts there. The likelihood returns the cost \<open>inf\<close> with
  a zero gradient, and does not raise, when the Cholesky factorization of the correlation
  matrix fails and when the product of the diagonal of the factor is zero.
\<close>

theorem kriging_guards:
  fixes la :: linalg and self :: krig
  defines "S \<equiv> krig_samples self"
  defines "det_r \<equiv> \<lambda>p. np_det la (length S) (corr_model self S S p)"
  defines "inflated \<equiv> \<lambda>j. map (\<lambda>t. (15 / 10) ^ j * t) (corr_model_params self)"
  assumes "\<forall>j<k. det_r (inflated j) < 1 / 10 ^ 12"
    and "\<not> det_r (inflated k) < 1 / 10 ^ 12"
    and "S \<noteq> []"
  shows "inflate_params det_r (corr_model_params self) = Some (inflated k)
     \<and> run_krig la fmin_l_bfgs_b ll_rest self
         = (case fmin_l_bfgs_b
                   (\<lambda>p0. log_likelihood la self (ll_rest p0) p0 (length S) (length (hd S)))
                   (inflated k) (bounds self) of
              Inl e \<Rightarrow> Some (Inl e)
            | Inr p_opt \<Rightarrow> Some (krig_fit_at la self p_opt))
     \<and> (np_cholesky la m (corr_model self S S p0) = None
          \<longrightarrow> log_likelihood la self rest p0 m n = Inr (PInf, replicate n 0))
     \<and> (\<forall>cc. np_cholesky la m (corr_model self S S p0) = Some cc \<and> (\<Prod>i<m. cc i i) = 0
          \<longrightarrow> log_likelihood la self rest p0 m n = Inr (PInf, replicate n 0))"
proof -
  have i: "inflate_params det_r (corr_model_params self) = Some (inflated k)"
    using assms(4,5) unfolding inflated_def by (rule inflate_params_steps)
  obtain row rows where S: "krig_samples self = row # rows"
    using assms(6) unfolding S_def by (cases "krig_samples self") auto
  have r: "run_krig la fmin_l_bfgs_b ll_rest self
         = (case fmin_l_bfgs_b
                   (\<lambda>p0. log_likelihood la self (ll_rest p0) p0 (length S) (length (hd S)))
                   (inflated k) (bounds self) of
              Inl e \<Rightarrow> Some (Inl e)
            | Inr p_opt \<Rightarrow> Some (krig_fit_at la self p_opt))"
    using i unfolding run_krig_def Let_def det_r_def S_def by (simp add: S)
  have n: "np_cholesky la m (corr_model self S S p0) = None
          \<longrightarrow> log_likelihood la self rest p0 m n = Inr (PInf, replicate n 0)"
    by (simp add: log_likelihood_def S_def)
  have z: "\<forall>cc. np_cholesky la m (corr_model self S S p0) = Some cc \<and> (\<Prod>i<m. cc i i) = 0
          \<longrightarrow> log_likelihood la self rest p0 m n = Inr (PInf, replicate n 0)"
    by (simp add: log_likelihood_def S_def)
  show ?thesis by (intro conjI i r n z)
qed

text \<open>Matrix products on index functions.\<close>

lemma matmul_assoc: "matmul n (matmul p A B) C = matmul p A (matmul n B C)"
proof (intro ext)
  fix i k
  have "(\<Sum>j<n. (\<Sum>l<p. A i l * B l j) * C j k) = (\<Sum>j<n. \<Sum>l<p. A i l * (B l j * C j k))"
    by (simp add: sum_distrib_right mult.assoc)
  also have "\<dots> = (\<Sum>l<p. \<Sum>j<n. A i l * (B l j * C j k))" by (rule sum.swap)
  also have "\<dots> = (\<Sum>l<p. A i l * (\<Sum>j<n. B l j * C j k))"
    by (simp add: sum_distrib_left)
  finally show "matmul n (matmul p A B) C i k = matmul p A (matmul n B C) i k"
    by (simp add: matmul_def)
qed

lemma matmul_cong_left:
  "(\<And>j. j < n \<Longrightarrow> A i j = A' i j) \<Longrightarrow> matmul n A B i k = matmul n A' B i k"
  by (simp add: matmul_def)

lemma matmul_cong_right:
  "(\<And>j. j < n \<Longrightarrow> B j k = B' j k) \<Longrightarrow> matmul n A B i k = matmul n A B' i k"
  by (simp add: matmul_def)

lemma matmul_identity_left:
  assumes "i < n" and "\<And>j. j < n \<Longrightarrow> A i j = (if i = j then 1 else 0)"
  shows "matmul n A B i k = B i k"
proof -
  have "matmul n A B i k = (\<Sum>j<n. (if i = j then 1 else 0) * B j k)"
    using assms(2) by (simp add: matmul_def)
  also have "\<dots> = (\<Sum>j\<in>{..<n}. if i = j then B j k else 0)"
    by (intro sum.cong) auto
  also have "\<dots> = B i k" using assms(1) by simp
  finally show ?thesis .
qed

lemma transpose_matmul: "transpose_m (matmul n A B) = matmul n (transpose_m B) (transpose_m A)"
  by (intro ext) (simp add: matmul_def transpose_m_def mult.commute)

text \<open>
  With \<open>R = C C\<^sup>T\<close> and \<open>C\<^sup>-\<^sup>1\<close> the inverse of \<open>C\<close>, the product
  \<open>R\<^sup>T (C\<^sup>-\<^sup>T C\<^sup>-\<^sup>1) E\<close> is \<open>E\<close>.
\<close>

lemma correlation_cancels:
  assumes chol: "\<And>i j. i < m \<Longrightarrow> j < m \<Longrightarrow> matmul m c (transpose_m c) i j = R i j"
    and inv1: "\<And>i j. i < m \<Longrightarrow> j < m \<Longrightarrow> matmul m ci c i j = (if i = j then 1 else 0)"
    and inv2: "\<And>i j. i < m \<Longrightarrow> j < m \<Longrightarrow> matmul m c ci i j = (if i = j then 1 else 0)"
    and i: "i < m"
  shows "matmul m (transpose_m R) (matmul m (matmul m (transpose_m ci) ci) E) i k = E i k"
proof -
  let ?ct = "transpose_m c" and ?cit = "transpose_m ci"
  have sym: "transpose_m R i j = matmul m c ?ct i j" if "j < m" for j
    using chol[OF that i] by (simp add: transpose_m_def matmul_def mult.commute)
  have "matmul m (transpose_m R) (matmul m (matmul m ?cit ci) E) i k
          = matmul m (matmul m c ?ct) (matmul m (matmul m ?cit ci) E) i k"
    by (rule matmul_cong_left) (rule sym)
  also have "\<dots> = matmul m c (matmul m (matmul m ?ct ?cit) (matmul m ci E)) i k"
    by (simp only: matmul_assoc)
  also have "\<dots> = matmul m c (matmul m ci E) i k"
  proof (rule matmul_cong_right)
    fix j assume j: "j < m"
    have sw: "matmul m ?ct ?cit j l = matmul m ci c l j" for l
      by (simp add: matmul_def transpose_m_def mult.commute)
    have "matmul m ?ct ?cit j l = (if j = l then 1 else 0)" if "l < m" for l
      unfolding sw using inv1[OF that j] by auto
    then show "matmul m (matmul m ?ct ?cit) (matmul m ci E) j k = matmul m ci E j k"
      using j by (intro matmul_identity_left) auto
  qed
  also have "\<dots> = matmul m (matmul m c ci) E i k" by (simp only: matmul_assoc)
  also have "\<dots> = E i k"
    using i inv2[OF i] by (intro matmul_identity_left) auto
  finally show ?thesis .
qed


lemma krig_fit_at_fields:
  assumes "krig_fit_at la self p = Inr ft"
  obtains c ci where
    "np_cholesky la (length (krig_samples self))
        (corr_model self (krig_samples self) (krig_samples self) p) = Some c"
    "np_inv la (length (krig_samples self)) c = Some ci"
    "fit_params ft = p"
    "gamma ft = matmul (length (krig_samples self))
                  (matmul (length (krig_samples self)) (transpose_m ci) ci)
                  (\<lambda>i k. of_rows (krig_values self) i k
                     - matmul (fst (reg_model self (krig_samples self)))
                         (snd (reg_model self (krig_samples self))) (beta ft) i k)"
  using assms
  by (auto simp: krig_fit_at_def Let_def split: option.splits prod.splits if_splits)

text \<open>
  C7. For a fit that succeeded, with \<^verbatim>\<open>np.linalg.cholesky\<close> returning a factor \<open>C\<close> of the
  correlation matrix (\<open>C C\<^sup>T = R\<close>, which exists when \<open>R\<close> is positive definite) and
  \<^verbatim>\<open>np.linalg.inv\<close> returning its inverse, interpolation at the training sites returns the
  training values: \<open>f(S) \<beta> + r(S)\<^sup>T \<gamma> = Y\<close>.
\<close>

theorem kriging_interpolates_training_data:
  fixes la :: linalg and self :: krig and p :: "real list"
  defines "S \<equiv> krig_samples self"
  defines "m \<equiv> length S"
  defines "R \<equiv> corr_model self S S p"
  assumes fit: "krig_fit_at la self p = Inr ft"
    and chol: "\<And>c. np_cholesky la m R = Some c \<Longrightarrow>
                 \<forall>i<m. \<forall>j<m. matmul m c (transpose_m c) i j = R i j"
    and inv: "\<And>c ci. np_cholesky la m R = Some c \<Longrightarrow> np_inv la m c = Some ci \<Longrightarrow>
                 \<forall>i<m. \<forall>j<m. matmul m ci c i j = (if i = j then 1 else 0)
                               \<and> matmul m c ci i j = (if i = j then 1 else 0)"
  shows "\<forall>i<m. \<forall>k. interpolate self ft S i k = of_rows (krig_values self) i k"
proof (intro allI impI)
  fix i k assume i: "i < m"
  from fit obtain c ci where
    c: "np_cholesky la m R = Some c" and ci: "np_inv la m c = Some ci"
    and fp: "fit_params ft = p"
    and g: "gamma ft = matmul m (matmul m (transpose_m ci) ci)
                  (\<lambda>i k. of_rows (krig_values self) i k
                     - matmul (fst (reg_model self S)) (snd (reg_model self S)) (beta ft) i k)"
    unfolding S_def m_def R_def by (rule krig_fit_at_fields)
  let ?E = "\<lambda>i k. of_rows (krig_values self) i k
                     - matmul (fst (reg_model self S)) (snd (reg_model self S)) (beta ft) i k"
  have "matmul m (transpose_m R) (matmul m (matmul m (transpose_m ci) ci) ?E) i k = ?E i k"
    using chol[OF c] inv[OF c ci] i by (intro correlation_cancels[where c = c]) auto
  then have "matmul m (transpose_m R) (gamma ft) i k = ?E i k" by (simp only: g)
  then show "interpolate self ft S i k = of_rows (krig_values self) i k"
    by (simp add: interpolate_def Let_def split_beta fp S_def[symmetric] m_def[symmetric]
          R_def[symmetric])
qed


theorem kriging_interpolates_training_data_witness:
  "\<exists>ft. krig_fit_at
           \<lparr>np_det = (\<lambda>m R. R 0 0), np_cholesky = (\<lambda>m R. Some (\<lambda>i j. 1)),
            np_inv = (\<lambda>m c. Some (\<lambda>i j. 1)), np_qr = (\<lambda>m n A. (\<lambda>i j. 1, \<lambda>i j. 1)),
            np_matrix_rank = (\<lambda>m n A. 1), np_solve = (\<lambda>n g b. Some b)\<rparr>
           \<lparr>krig_samples = [[0]], krig_values = [[5]], reg_model = (\<lambda>x. (1, \<lambda>i j. 1)),
            corr_model = (\<lambda>x s p. (\<lambda>i j. 1)), corr_model_params = [1], bounds = []\<rparr>
           [1] = Inr ft
     \<and> interpolate
           \<lparr>krig_samples = [[0]], krig_values = [[5]], reg_model = (\<lambda>x. (1, \<lambda>i j. 1)),
            corr_model = (\<lambda>x s p. (\<lambda>i j. 1)), corr_model_params = [1], bounds = []\<rparr>
           ft [[0]] 0 0 = 5"
proof -
  let ?la = "\<lparr>np_det = (\<lambda>m R. R 0 0), np_cholesky = (\<lambda>m (R::mat). Some (\<lambda>i j. 1::real)),
            np_inv = (\<lambda>m (c::mat). Some (\<lambda>i j. 1::real)),
            np_qr = (\<lambda>m n (A::mat). (\<lambda>i j. 1::real, \<lambda>i j. 1::real)),
            np_matrix_rank = (\<lambda>m n (A::mat). 1::nat), np_solve = (\<lambda>n (g::mat) (b::mat). Some b)\<rparr>"
  let ?self = "\<lparr>krig_samples = [[0]], krig_values = [[5]], reg_model = (\<lambda>x. (1::nat, \<lambda>i j. 1::real)),
            corr_model = (\<lambda>x s p. (\<lambda>i j. 1::real)), corr_model_params = [1], bounds = []\<rparr>"
  obtain ft where fit: "krig_fit_at ?la ?self [1] = Inr ft"
    by (simp add: krig_fit_at_def Let_def)
  have "\<forall>i<length (krig_samples ?self). \<forall>k. interpolate ?self ft (krig_samples ?self) i k
          = of_rows (krig_values ?self) i k"
    by (rule kriging_interpolates_training_data[OF fit])
       (simp_all add: matmul_def transpose_m_def)
  then have "interpolate ?self ft [[0]] 0 0 = 5" by (simp add: of_rows_def)
  with fit show ?thesis by blast
qed

theorem kriging_guards_witness:
  "inflate_params (\<lambda>p. p ! 0) [8 / 10 ^ 13] = Some [12 / 10 ^ 13]
   \<and> log_likelihood
        \<lparr>np_det = (\<lambda>m R. R 0 0), np_cholesky = (\<lambda>m R. None),
         np_inv = (\<lambda>m c. None), np_qr = (\<lambda>m n A. (A, A)),
         np_matrix_rank = (\<lambda>m n A. 0), np_solve = (\<lambda>n g b. None)\<rparr>
        \<lparr>krig_samples = [[0]], krig_values = [[5]], reg_model = (\<lambda>x. (1, \<lambda>i j. 1)),
         corr_model = (\<lambda>x s p. (\<lambda>i j. p ! 0)), corr_model_params = [8 / 10 ^ 13],
         bounds = []\<rparr>
        (\<lambda>cc. Inl LinAlgError) [1] 1 1 = Inr (PInf, [0])
   \<and> log_likelihood
        \<lparr>np_det = (\<lambda>m R. R 0 0), np_cholesky = (\<lambda>m R. Some (\<lambda>i j. 0)),
         np_inv = (\<lambda>m c. None), np_qr = (\<lambda>m n A. (A, A)),
         np_matrix_rank = (\<lambda>m n A. 0), np_solve = (\<lambda>n g b. None)\<rparr>
        \<lparr>krig_samples = [[0]], krig_values = [[5]], reg_model = (\<lambda>x. (1, \<lambda>i j. 1)),
         corr_model = (\<lambda>x s p. (\<lambda>i j. p ! 0)), corr_model_params = [8 / 10 ^ 13],
         bounds = []\<rparr>
        (\<lambda>cc. Inl LinAlgError) [1] 1 1 = Inr (PInf, [0])"
proof -
  let ?self = "\<lparr>krig_samples = [[0]], krig_values = [[5]], reg_model = (\<lambda>x. (1::nat, \<lambda>i j. 1::real)),
         corr_model = (\<lambda>x s p. (\<lambda>i j. p ! 0)), corr_model_params = [8 / 10 ^ 13],
         bounds = []\<rparr>"
  let ?la1 = "\<lparr>np_det = (\<lambda>m (R::mat). R 0 0), np_cholesky = (\<lambda>m (R::mat). None),
         np_inv = (\<lambda>m (c::mat). None), np_qr = (\<lambda>m n (A::mat). (A, A)),
         np_matrix_rank = (\<lambda>m n (A::mat). 0::nat), np_solve = (\<lambda>n (g::mat) (b::mat). None)\<rparr>"
  let ?la2 = "\<lparr>np_det = (\<lambda>m (R::mat). R 0 0), np_cholesky = (\<lambda>m (R::mat). Some (\<lambda>i j. 0::real)),
         np_inv = (\<lambda>m (c::mat). None), np_qr = (\<lambda>m n (A::mat). (A, A)),
         np_matrix_rank = (\<lambda>m n (A::mat). 0::nat), np_solve = (\<lambda>n (g::mat) (b::mat). None)\<rparr>"
  have a: "\<forall>j<1. np_det ?la1 (length (krig_samples ?self))
              (corr_model ?self (krig_samples ?self) (krig_samples ?self)
                 (map (\<lambda>t. (15 / 10) ^ j * t) (corr_model_params ?self))) < 1 / 10 ^ 12"
    by simp
  have b: "\<not> np_det ?la1 (length (krig_samples ?self))
              (corr_model ?self (krig_samples ?self) (krig_samples ?self)
                 (map (\<lambda>t. (15 / 10) ^ 1 * t) (corr_model_params ?self))) < 1 / 10 ^ 12"
    by simp
  have c: "krig_samples ?self \<noteq> []" by simp
  note g1 = kriging_guards[OF a b c, where m = 1 and ?p0.0 = "[1]" and n = 1
      and rest = "\<lambda>cc. Inl LinAlgError"]
  have a2: "\<forall>j<1. np_det ?la2 (length (krig_samples ?self))
              (corr_model ?self (krig_samples ?self) (krig_samples ?self)
                 (map (\<lambda>t. (15 / 10) ^ j * t) (corr_model_params ?self))) < 1 / 10 ^ 12"
    by simp
  have b2: "\<not> np_det ?la2 (length (krig_samples ?self))
              (corr_model ?self (krig_samples ?self) (krig_samples ?self)
                 (map (\<lambda>t. (15 / 10) ^ 1 * t) (corr_model_params ?self))) < 1 / 10 ^ 12"
    by simp
  note g2 = kriging_guards[OF a2 b2 c, where m = 1 and ?p0.0 = "[1]" and n = 1
      and rest = "\<lambda>cc. Inl LinAlgError"]
  from g1 g2 show ?thesis by simp
qed


end
